theory Spec2Isabelle
  imports Complex_Main "HOL-Library.Multiset"
begin

section \<open>JavaScript values used by the evaluator\<close>

text \<open>
  Strings are lists of code units below 256. An id, a name, a status and a feedback of the
  model output are strings; a property that may be missing from an object is an
  \<open>option\<close>. \<open>x || d\<close> takes \<open>d\<close> when \<open>x\<close> is missing or the empty string.
\<close>

definition str_or :: "string option \<Rightarrow> string \<Rightarrow> string" where
  "str_or x d = (case x of None \<Rightarrow> d | Some s \<Rightarrow> if s = [] then d else s)"

text \<open>
  A score of the model output can be any JSON value. The code uses \<open>cat.score\<close> only
  as \<open>cat.score || 0\<close> under \<open>Math.max\<close>, \<open>Math.min\<close> and the comparisons of
  \<open>determineStatus\<close>, which convert it to a number; the model keeps the number it
  converts to, or \<open>NotANumber\<close> for a truthy value that converts to \<open>NaN\<close>, such
  as the string \<open>high\<close>. A score that is missing, or falsy without being the number 0,
  is \<open>None\<close>. Numbers are taken to be integers, as the scores that the prompt asks for;
  then every number that the code computes is an integer or \<open>NaN\<close>, which is
  \<open>NotANumber\<close> too. The code uses \<open>overallScore\<close> only through its truthiness and
  \<open>=== 0\<close> and passes it on as it is; there \<open>NotANumber\<close> is any truthy value that
  is not a number.
\<close>

datatype score_value = Number int | NotANumber

text \<open>\<open>x || 0\<close>.\<close>

definition or_zero :: "score_value option \<Rightarrow> score_value" where
  "or_zero x = (case x of None \<Rightarrow> Number 0 | Some v \<Rightarrow> v)"

definition Math_max :: "score_value \<Rightarrow> score_value \<Rightarrow> score_value" where
  "Math_max a b =
     (case (a, b) of (Number x, Number y) \<Rightarrow> Number (max x y) | _ \<Rightarrow> NotANumber)"

definition Math_min :: "score_value \<Rightarrow> score_value \<Rightarrow> score_value" where
  "Math_min a b =
     (case (a, b) of (Number x, Number y) \<Rightarrow> Number (min x y) | _ \<Rightarrow> NotANumber)"

text \<open>\<open>a + b\<close> and \<open>a >= n\<close> on numbers; a comparison with \<open>NaN\<close> is false.\<close>

definition plus_value :: "score_value \<Rightarrow> score_value \<Rightarrow> score_value" where
  "plus_value a b =
     (case (a, b) of (Number x, Number y) \<Rightarrow> Number (x + y) | _ \<Rightarrow> NotANumber)"

definition at_least :: "score_value \<Rightarrow> int \<Rightarrow> bool" where
  "at_least v n = (case v of Number x \<Rightarrow> x \<ge> n | NotANumber \<Rightarrow> False)"

text \<open>\<open>Math.round\<close> rounds to the nearest integer, a half upwards.\<close>

definition Math_round :: "rat \<Rightarrow> int" where
  "Math_round x = \<lfloor>x + 1 / 2\<rfloor>"

text \<open>\<open>Math.round(sum / length)\<close> for a length that is not zero.\<close>

definition round_quotient :: "score_value \<Rightarrow> nat \<Rightarrow> score_value" where
  "round_quotient summed n =
     (case summed of
        Number s \<Rightarrow> Number (Math_round (of_int s / of_int (int n)))
      | NotANumber \<Rightarrow> NotANumber)"

subsection \<open>\<open>parseInt\<close> with no radix argument\<close>

definition is_space :: "char \<Rightarrow> bool" where
  "is_space c = (c \<in> set [CHR 0x09, CHR 0x0A, CHR 0x0B, CHR 0x0C, CHR 0x0D, CHR 0x20, CHR 0xA0])"

definition is_digit :: "char \<Rightarrow> bool" where
  "is_digit c = (48 \<le> (of_char c :: nat) \<and> (of_char c :: nat) \<le> 57)"

definition is_lower :: "char \<Rightarrow> bool" where
  "is_lower c = (97 \<le> (of_char c :: nat) \<and> (of_char c :: nat) \<le> 122)"

definition is_upper :: "char \<Rightarrow> bool" where
  "is_upper c = (65 \<le> (of_char c :: nat) \<and> (of_char c :: nat) \<le> 90)"

definition is_letter :: "char \<Rightarrow> bool" where
  "is_letter c = (is_lower c \<or> is_upper c)"

definition digit_value :: "char \<Rightarrow> nat" where
  "digit_value c =
     (if is_digit c then of_char c - 48
      else if is_lower c then of_char c - 87
      else of_char c - 55)"

definition is_radix_digit :: "nat \<Rightarrow> char \<Rightarrow> bool" where
  "is_radix_digit R c = ((is_digit c \<or> is_letter c) \<and> digit_value c < R)"

definition strip_sign :: "string \<Rightarrow> int \<times> string" where
  "strip_sign S =
     (case S of
        [] \<Rightarrow> (1, S)
      | c # r \<Rightarrow> if c = CHR ''-'' then (-1, r) else if c = CHR ''+'' then (1, r) else (1, S))"

definition strip_radix :: "string \<Rightarrow> nat \<times> string" where
  "strip_radix S =
     (if take 2 S = ''0x'' \<or> take 2 S = ''0X'' then (16, drop 2 S) else (10, S))"

text \<open>The result \<open>None\<close> is \<open>NaN\<close>.\<close>

definition parseInt :: "string \<Rightarrow> int option" where
  "parseInt s =
     (let (sign, S1) = strip_sign (dropWhile is_space s);
          (R, S2) = strip_radix S1;
          Z = takeWhile (is_radix_digit R) S2
      in if Z = [] then None
         else Some (sign * int (foldl (\<lambda>a c. a * R + digit_value c) 0 Z)))"

subsection \<open>\<open>Array.prototype.sort\<close> with a comparator\<close>

text \<open>
  The sort is stable, and a comparator result of \<open>NaN\<close> counts as zero. For a
  comparator that is a consistent ordering every stable sort returns the same list. For
  one that is not, the language leaves the order to the implementation; the model is an
  insertion sort: each element is inserted into the sorted prefix from the right, passing
  the elements the comparator puts after it.
\<close>

definition positive :: "int option \<Rightarrow> bool" where
  "positive v = (case v of None \<Rightarrow> False | Some n \<Rightarrow> 0 < n)"

definition sort_insert :: "('a \<Rightarrow> 'a \<Rightarrow> int option) \<Rightarrow> 'a list \<Rightarrow> 'a \<Rightarrow> 'a list" where
  "sort_insert comparefn acc x =
     rev (dropWhile (\<lambda>y. positive (comparefn y x)) (rev acc))
       @ x # rev (takeWhile (\<lambda>y. positive (comparefn y x)) (rev acc))"

definition Array_sort :: "('a \<Rightarrow> 'a \<Rightarrow> int option) \<Rightarrow> 'a list \<Rightarrow> 'a list" where
  "Array_sort comparefn xs = foldl (sort_insert comparefn) [] xs"

section \<open>Result normalizer (evaluator.js)\<close>

record raw_category =
  raw_id :: "string option"
  raw_name :: "string option"
  raw_score :: "score_value option"
  raw_status :: "string option"
  raw_feedback :: "string option"

text \<open>\<open>raw_categories\<close> is \<open>None\<close> when the property is missing or not an array.\<close>

record raw_results =
  raw_overallScore :: "score_value option"
  raw_categories :: "raw_category list option"

datatype phase = proposal | mid | end_phase

record category =
  cat_id :: string
  cat_name :: string
  cat_description :: string

record criteria =
  phase :: phase
  categories :: "category list"

record category_result =
  res_id :: string
  res_name :: string
  score :: score_value
  status :: string
  feedback :: string

record results =
  overallScore :: score_value
  result_categories :: "category_result list"

definition determineStatus :: "score_value \<Rightarrow> string" where
  "determineStatus s =
     (if at_least s 90 then ''excellent''
      else if at_least s 75 then ''good''
      else if at_least s 60 then ''fair''
      else ''poor'')"

definition map_category :: "raw_category \<Rightarrow> category_result" where
  "map_category cat =
     (let status = str_or (raw_status cat) (determineStatus (or_zero (raw_score cat)))
      in \<lparr> res_id = str_or (raw_id cat) ''unknown'',
           res_name = str_or (raw_name cat) ''Unknown Category'',
           score = Math_min (Number 100) (Math_max (Number 0) (or_zero (raw_score cat))),
           status = status,
           feedback = str_or (raw_feedback cat) ''No feedback provided'' \<rparr>)"

definition placeholder :: "category \<Rightarrow> category_result" where
  "placeholder critCat =
     \<lparr> res_id = cat_id critCat,
       res_name = cat_name critCat,
       score = Number 0,
       status = ''poor'',
       feedback = ''This criterion was not evaluated. Please review the DMP for this section.'' \<rparr>"

definition mapped_categories :: "raw_results \<Rightarrow> category_result list" where
  "mapped_categories rawResults =
     (case raw_categories rawResults of None \<Rightarrow> [] | Some cs \<Rightarrow> map map_category cs)"

definition recalculate :: "score_value \<Rightarrow> category_result list \<Rightarrow> score_value" where
  "recalculate overall cats =
     (if overall = Number 0 then
        (if length cats > 0
         then (let summed = foldl (\<lambda>acc cat. plus_value acc (score cat)) (Number 0) cats
               in round_quotient summed (length cats))
         else overall)
      else overall)"

definition fill_missing :: "category_result list \<Rightarrow> category list \<Rightarrow> category_result list" where
  "fill_missing cats critCats =
     cats @ map placeholder (filter (\<lambda>critCat. cat_id critCat \<notin> set (map res_id cats)) critCats)"

text \<open>
  The comparator of the final sort. \<open>localeCompare\<close> is the host's collation of two
  strings and is taken as the parameter \<open>lc\<close>. \<open>aNum !== bNum\<close> holds whenever one
  of them is \<open>NaN\<close>, and the difference is then \<open>NaN\<close>.
\<close>

definition compare_by_id ::
  "(string \<Rightarrow> string \<Rightarrow> int) \<Rightarrow> category_result \<Rightarrow> category_result \<Rightarrow> int option" where
  "compare_by_id lc a b =
     (let aNum = parseInt (res_id a); bNum = parseInt (res_id b)
      in case (aNum, bNum) of
           (Some x, Some y) \<Rightarrow> if x \<noteq> y then Some (x - y) else Some (lc (res_id a) (res_id b))
         | _ \<Rightarrow> None)"

definition processResults ::
  "(string \<Rightarrow> string \<Rightarrow> int) \<Rightarrow> raw_results \<Rightarrow> criteria \<Rightarrow> results" where
  "processResults lc rawResults crit =
     (let cats = mapped_categories rawResults;
          overall = recalculate (or_zero (raw_overallScore rawResults)) cats;
          filled = fill_missing cats (categories crit)
      in \<lparr> overallScore = overall,
           result_categories = Array_sort (compare_by_id lc) filled \<rparr>)"


text \<open>
  A collation for concrete runs: it orders strings by character code, as the host's
  \<open>localeCompare\<close> does for ids made of digits and lower-case letters.
\<close>

fun code_unit_compare :: "string \<Rightarrow> string \<Rightarrow> int" where
  "code_unit_compare [] [] = 0"
| "code_unit_compare [] (y # ys) = -1"
| "code_unit_compare (x # xs) [] = 1"
| "code_unit_compare (x # xs) (y # ys) =
     (if (of_char x :: nat) < of_char y then -1
      else if (of_char y :: nat) < of_char x then 1
      else code_unit_compare xs ys)"


section \<open>Retry with backoff (api-config.js)\<close>











section \<open>Event-stream parsing (api-config.js)\<close>

text \<open>
  The body of a streamed response is a finite sequence of reads: each yields the decoded
  text of a chunk or fails with an error, and after the last one the reader reports that
  it is done. \<open>JSON.parse\<close> and the reading of \<open>choices[0]\<close> are the parameter
  \<open>parse\<close>: it maps a payload to the delta and the finish reason of its first choice, and
  is \<open>None\<close> when the payload is not JSON or reading it throws. \<open>onChunk\<close> is the
  optional callback; its value tells whether the call returns (\<open>True\<close>) or throws.
\<close>

datatype read_result = Value string | Failure string

record delta =
  reasoning :: "string option"
  content :: "string option"

record chunk =
  chunk_delta :: "delta option"
  finish_reason :: "string option"

definition trim :: "string \<Rightarrow> string" where
  "trim s = rev (dropWhile is_space (rev (dropWhile is_space s)))"

text \<open>\<open>s.split(sep)\<close> for a separator of one character.\<close>

definition split_str :: "char \<Rightarrow> string \<Rightarrow> string list" where
  "split_str sep s = foldr (\<lambda>c acc. if c = sep then [] # acc else (c # hd acc) # tl acc) s [[]]"

definition startsWith :: "string \<Rightarrow> string \<Rightarrow> bool" where
  "startsWith s p = (take (length p) s = p)"

definition truthy :: "string option \<Rightarrow> bool" where
  "truthy x = (case x of None \<Rightarrow> False | Some s \<Rightarrow> s \<noteq> [])"

definition returns :: "(string \<Rightarrow> bool \<Rightarrow> bool) option \<Rightarrow> string \<Rightarrow> bool \<Rightarrow> bool" where
  "returns onChunk text isReasoning =
     (case onChunk of None \<Rightarrow> True | Some callback \<Rightarrow> callback text isReasoning)"

text \<open>
  The \<open>for\<close> loop over the complete lines of one read, on the pair of the accumulated
  content and the accumulated reasoning. A \<open>break\<close> leaves this loop only.
\<close>

fun process_lines ::
  "(string \<Rightarrow> chunk option) \<Rightarrow> (string \<Rightarrow> bool \<Rightarrow> bool) option \<Rightarrow> string list
     \<Rightarrow> string \<times> string \<Rightarrow> string \<times> string" where
  "process_lines parse onChunk [] acc = acc"
| "process_lines parse onChunk (line # rest) (accumulatedContent, accumulatedReasoning) =
     (let trimmedLine = trim line in
      if trimmedLine = [] then
        process_lines parse onChunk rest (accumulatedContent, accumulatedReasoning)
      else if startsWith trimmedLine ''data: '' then
        (let data = drop 6 trimmedLine in
         if data = ''[DONE]'' then (accumulatedContent, accumulatedReasoning)
         else
           (case parse data of
              None \<Rightarrow> process_lines parse onChunk rest (accumulatedContent, accumulatedReasoning)
            | Some chunk \<Rightarrow>
                (case chunk_delta chunk of
                   None \<Rightarrow>
                     process_lines parse onChunk rest (accumulatedContent, accumulatedReasoning)
                 | Some delta \<Rightarrow>
                     (let r = (if truthy (reasoning delta)
                               then accumulatedReasoning @ the (reasoning delta)
                               else accumulatedReasoning)
                      in if truthy (reasoning delta)
                            \<and> \<not> returns onChunk (the (reasoning delta)) True
                         then process_lines parse onChunk rest (accumulatedContent, r)
                         else
                           (let c = (if truthy (content delta)
                                     then accumulatedContent @ the (content delta)
                                     else accumulatedContent)
                            in if truthy (content delta)
                                  \<and> \<not> returns onChunk (the (content delta)) False
                               then process_lines parse onChunk rest (c, r)
                               else if finish_reason chunk = Some ''stop''
                                       \<or> finish_reason chunk = Some ''length''
                               then (c, r)
                               else process_lines parse onChunk rest (c, r))))))
      else process_lines parse onChunk rest (accumulatedContent, accumulatedReasoning))"

text \<open>The \<open>while (true)\<close> loop over the reads, on the buffer and the two accumulators.\<close>

fun read_loop ::
  "(string \<Rightarrow> chunk option) \<Rightarrow> (string \<Rightarrow> bool \<Rightarrow> bool) option \<Rightarrow> read_result list
     \<Rightarrow> string \<Rightarrow> string \<times> string \<Rightarrow> string + string \<times> string" where
  "read_loop parse onChunk [] buffer acc = Inr acc"
| "read_loop parse onChunk (Failure error # stream) buffer acc = Inl error"
| "read_loop parse onChunk (Value v # stream) buffer acc =
     (let lines = split_str CHR 0x0A (buffer @ v)
      in read_loop parse onChunk stream (last lines)
           (process_lines parse onChunk (butlast lines) acc))"

definition parseSSEStream ::
  "(string \<Rightarrow> chunk option) \<Rightarrow> read_result list \<Rightarrow> (string \<Rightarrow> bool \<Rightarrow> bool) option
     \<Rightarrow> string + string" where
  "parseSSEStream parse stream onChunk =
     (case read_loop parse onChunk stream [] ([], []) of
        Inl error \<Rightarrow> Inl error
      | Inr (accumulatedContent, accumulatedReasoning) \<Rightarrow>
          Inr (if accumulatedContent \<noteq> [] then accumulatedContent else accumulatedReasoning))"

section \<open>Criteria extractor (criteria-extractor.js)\<close>

subsection \<open>String operations of the host\<close>

text \<open>\<open>s.indexOf(p, from)\<close>: the first position at or after \<open>from\<close> where \<open>p\<close> occurs.\<close>

fun index_from :: "string \<Rightarrow> string \<Rightarrow> nat \<Rightarrow> nat option" where
  "index_from [] p i = (if p = [] then Some i else None)"
| "index_from (c # s) p i =
     (if startsWith (c # s) p then Some i else index_from s p (Suc i))"

definition indexOf :: "string \<Rightarrow> string \<Rightarrow> nat \<Rightarrow> nat option" where
  "indexOf s p from = index_from (drop from s) p (min from (length s))"

definition includes_str :: "string \<Rightarrow> string \<Rightarrow> bool" where
  "includes_str s p = (indexOf s p 0 \<noteq> None)"

definition substring :: "string \<Rightarrow> nat \<Rightarrow> nat \<Rightarrow> string" where
  "substring s i j = take (max i j - min i j) (drop (min i j) s)"

definition lower_char :: "char \<Rightarrow> char" where
  "lower_char c =
     (let n = (of_char c :: nat)
      in if (65 \<le> n \<and> n \<le> 90) \<or> (192 \<le> n \<and> n \<le> 222 \<and> n \<noteq> 215)
         then char_of (n + 32) else c)"

definition toLowerCase :: "string \<Rightarrow> string" where
  "toLowerCase s = map lower_char s"

fun digit_char :: "nat \<Rightarrow> char" where
  "digit_char n = char_of (48 + n mod 10)"

text \<open>The decimal numeral of a number, as string interpolation prints it.\<close>

function decimal :: "nat \<Rightarrow> string" where
  "decimal n = (if n < 10 then [digit_char n] else decimal (n div 10) @ [digit_char n])"
  by pat_completeness auto
termination
  by (relation "measure id") auto

declare decimal.simps [simp del]

subsection \<open>The regular expressions, each as the function it computes\<close>

text \<open>\<open>/^\|\s*-+\s*\|/\<close>: a separator row.\<close>

definition is_separator_row :: "string \<Rightarrow> bool" where
  "is_separator_row line =
     (case line of
        [] \<Rightarrow> False
      | c # r \<Rightarrow>
          c = CHR ''|'' \<and>
          (let r1 = dropWhile is_space r;
               r2 = dropWhile (\<lambda>d. d = CHR ''-'') r1
           in r1 \<noteq> [] \<and> hd r1 = CHR ''-'' \<and>
              (case dropWhile is_space r2 of [] \<Rightarrow> False | e # _ \<Rightarrow> e = CHR ''|'')))"

text \<open>
  \<open>/(\d+[a-z])\s*/i\<close>: the first group of the leftmost match, that is, the first run of
  digits that a letter follows, with that letter.
\<close>

definition category_match_at :: "string \<Rightarrow> string option" where
  "category_match_at s =
     (let ds = takeWhile is_digit s; rest = dropWhile is_digit s
      in if ds \<noteq> [] \<and> rest \<noteq> [] \<and> is_letter (hd rest) then Some (ds @ [hd rest]) else None)"

fun category_match :: "string \<Rightarrow> string option" where
  "category_match [] = None"
| "category_match (c # s) =
     (case category_match_at (c # s) of
        Some m \<Rightarrow> Some m
      | None \<Rightarrow> category_match s)"

text \<open>\<open>/^\d+[a-z]?\s*/i\<close> and \<open>/^\d+[a-z]?\s+/i\<close> replaced by the empty string.\<close>

definition strip_optional_letter :: "string \<Rightarrow> string" where
  "strip_optional_letter s = (case s of [] \<Rightarrow> [] | c # r \<Rightarrow> if is_letter c then r else s)"

definition strip_leading_id :: "string \<Rightarrow> string" where
  "strip_leading_id s =
     (if s \<noteq> [] \<and> is_digit (hd s)
      then dropWhile is_space (strip_optional_letter (dropWhile is_digit s))
      else s)"

definition strip_leading_marker :: "string \<Rightarrow> string" where
  "strip_leading_marker s =
     (if s \<noteq> [] \<and> is_digit (hd s)
      then (let r = strip_optional_letter (dropWhile is_digit s)
            in if r \<noteq> [] \<and> is_space (hd r) then dropWhile is_space r else s)
      else s)"

text \<open>
  \<open>/^\d+\s+[A-Z\s]+\d+[a-z]/i\<close> replaced by the empty string: digits, then a run of at
  least two letters and white space that begins with white space, then digits and a
  letter.
\<close>

definition strip_section_heading :: "string \<Rightarrow> string" where
  "strip_section_heading s =
     (if s \<noteq> [] \<and> is_digit (hd s)
      then (let r = dropWhile is_digit s;
                run = takeWhile (\<lambda>c. is_letter c \<or> is_space c) r;
                r2 = dropWhile (\<lambda>c. is_letter c \<or> is_space c) r;
                r3 = dropWhile is_digit r2
            in if 2 \<le> length run \<and> is_space (hd run)
                  \<and> r2 \<noteq> [] \<and> is_digit (hd r2)
                  \<and> r3 \<noteq> [] \<and> is_letter (hd r3)
               then tl r3 else s)
      else s)"

text \<open>\<open>new RegExp('^' + categoryId + '\\s*', 'i')\<close> replaced by the empty string.\<close>

definition strip_category_id :: "string \<Rightarrow> string \<Rightarrow> string" where
  "strip_category_id categoryId s =
     (if toLowerCase (take (length categoryId) s) = toLowerCase categoryId
         \<and> length categoryId \<le> length s
      then dropWhile is_space (drop (length categoryId) s)
      else s)"

text \<open>\<open>/\s+/g\<close> replaced by one space.\<close>

function collapse_spaces :: "string \<Rightarrow> string" where
  "collapse_spaces [] = []"
| "collapse_spaces (c # s) =
     (if is_space c then CHR '' '' # collapse_spaces (dropWhile is_space s)
      else c # collapse_spaces s)"
  by pat_completeness auto
termination
  by (relation "measure length") (auto simp: less_Suc_eq_le length_dropWhile_le)

subsection \<open>The extractor\<close>

definition CATEGORY_DEFINITIONS :: "(string \<times> string) list" where
  "CATEGORY_DEFINITIONS =
     [(''1a'', ''Data Description and Collection or Re-use''),
      (''1b'', ''Data Types, Formats, and Volumes''),
      (''2a'', ''Metadata and Documentation Standards''),
      (''2b'', ''Data Quality Control Measures''),
      (''3a'', ''Storage and Backup''),
      (''3b'', ''Data Access Management''),
      (''3c'', ''Data Security and Protection''),
      (''4a'', ''Personal Data and GDPR Compliance''),
      (''4b'', ''Intellectual Property Rights and Ownership''),
      (''4c'', ''Ethical Requirements and Approvals''),
      (''5a'', ''Data Sharing Plans and Restrictions''),
      (''5b'', ''Data Preservation and Archiving''),
      (''5c'', ''Access Methods and Software Tools''),
      (''5d'', ''Persistent Identifiers (PIDs)''),
      (''6a'', ''Data Management Roles and Responsibilities''),
      (''6b'', ''Resources for FAIR Data Management'')]"

definition nth_opt :: "'a list \<Rightarrow> nat \<Rightarrow> 'a option" where
  "nth_opt xs i = (if i < length xs then Some (xs ! i) else None)"

definition extractCategoryName :: "string \<Rightarrow> string" where
  "extractCategoryName cellText =
     (let withoutId = strip_leading_id cellText;
          firstLine = takeWhile (\<lambda>c. c \<noteq> CHR 0x0A) withoutId;
          questionMatch = rev (dropWhile (\<lambda>c. c \<noteq> CHR ''?'') (rev firstLine))
      in if 2 \<le> length questionMatch then trim questionMatch
         else trim (substring firstLine 0 100))"

definition cleanDescription :: "string option \<Rightarrow> string option \<Rightarrow> string" where
  "cleanDescription text categoryId =
     (if \<not> truthy text then []
      else
        (let cleaned = the text;
             cleaned = (if truthy categoryId then strip_category_id (the categoryId) cleaned
                        else cleaned);
             cleaned = trim (collapse_spaces cleaned);
             cleaned = strip_leading_marker cleaned;
             cleaned = strip_section_heading cleaned
         in cleaned))"

definition phaseColumnMap :: "phase \<Rightarrow> nat" where
  "phaseColumnMap p = (case p of proposal \<Rightarrow> 0 | mid \<Rightarrow> 1 | end_phase \<Rightarrow> 2)"

text \<open>
  The body of the loop over the lines, on the list of categories built so far and the
  current category id.
\<close>

definition parse_row ::
  "nat \<Rightarrow> category list \<times> string option \<Rightarrow> string \<Rightarrow> category list \<times> string option" where
  "parse_row columnIndex state line =
     (let categories = fst state; currentCategoryId = snd state in
      if includes_str line ''Proposal/Early Stage'' \<or> is_separator_row line then state
      else if \<not> startsWith line ''|'' then state
      else
        (let cells = filter (\<lambda>cell. cell \<noteq> []) (map trim (split_str CHR ''|'' line)) in
         if length cells < 3 then state
         else
           (let firstCell = hd cells in
            case category_match firstCell of
              Some m \<Rightarrow>
                (let currentCategoryId = toLowerCase m;
                     categoryName =
                       (if truthy (map_of CATEGORY_DEFINITIONS currentCategoryId)
                        then the (map_of CATEGORY_DEFINITIONS currentCategoryId)
                        else extractCategoryName firstCell);
                     description =
                       cleanDescription
                         (if truthy (nth_opt cells columnIndex) then nth_opt cells columnIndex
                          else nth_opt cells 0)
                         (Some currentCategoryId)
                 in if description \<noteq> [] \<and> length description > 10
                    then (categories @ [\<lparr> cat_id = currentCategoryId, cat_name = categoryName,
                                          cat_description = description \<rparr>],
                          Some currentCategoryId)
                    else (categories, Some currentCategoryId))
            | None \<Rightarrow>
                if truthy currentCategoryId \<and> truthy (nth_opt cells columnIndex) then
                  (let additionalText = cleanDescription (nth_opt cells columnIndex) None in
                   if additionalText \<noteq> [] \<and> length additionalText > 10
                      \<and> categories \<noteq> [] \<and> Some (cat_id (last categories)) = currentCategoryId
                   then (butlast categories
                           @ [(last categories)
                                \<lparr> cat_description :=
                                    cat_description (last categories)
                                      @ [CHR 0x0A, CHR 0x0A] @ additionalText \<rparr>],
                         currentCategoryId)
                   else state)
                else state)))"

definition parseTableRows :: "string \<Rightarrow> phase \<Rightarrow> criteria" where
  "parseTableRows tableText p =
     (let lines = split_str CHR 0x0A tableText;
          columnIndex = phaseColumnMap p
      in \<lparr> phase = p, categories = fst (foldl (parse_row columnIndex) ([], None) lines) \<rparr>)"

definition phaseDescriptions :: "phase \<Rightarrow> string" where
  "phaseDescriptions p =
     (case p of
        proposal \<Rightarrow> ''planned or proposed approach''
      | mid \<Rightarrow> ''current implementation and progress''
      | end_phase \<Rightarrow> ''final outcomes and compliance'')"

definition getDefaultCriteria :: "phase \<Rightarrow> criteria" where
  "getDefaultCriteria p =
     \<lparr> phase = p,
       categories =
         map (\<lambda>(i, name).
                \<lparr> cat_id = i, cat_name = name,
                  cat_description =
                    ''Evaluate the '' @ phaseDescriptions p @ '' for '' @ toLowerCase name @ ''.'' \<rparr>)
             CATEGORY_DEFINITIONS \<rparr>"

text \<open>The portion of the text from the table marker to the next top-level heading.\<close>

definition table_text :: "string \<Rightarrow> nat \<Rightarrow> string" where
  "table_text text table2Start =
     (case indexOf text [CHR 0x0A, CHR ''#'', CHR '' ''] (table2Start + 1) of
        Some tableEnd \<Rightarrow> substring text table2Start tableEnd
      | None \<Rightarrow> drop table2Start text)"

definition extractCriteria :: "string \<Rightarrow> phase \<Rightarrow> criteria" where
  "extractCriteria text p =
     (case indexOf text ''Table 2'' 0 of
        None \<Rightarrow> getDefaultCriteria p
      | Some table2Start \<Rightarrow>
          (let crit = parseTableRows (table_text text table2Start) p
           in if length (categories crit) = 0 then getDefaultCriteria p else crit))"

record validation =
  valid :: bool
  message :: string

definition validateCriteria :: "criteria \<Rightarrow> validation" where
  "validateCriteria crit =
     (if length (categories crit) = 0
      then \<lparr> valid = False, message = ''No evaluation categories found'' \<rparr>
      else if \<exists>cat \<in> set (categories crit).
                cat_id cat = [] \<or> cat_name cat = [] \<or> cat_description cat = []
      then \<lparr> valid = False,
             message = ''Invalid category structure: missing id, name, or description'' \<rparr>
      else \<lparr> valid = True,
             message = decimal (length (categories crit)) @ '' categories loaded successfully'' \<rparr>)"

text \<open>
  Vocabulary for the properties of the extractor: the id of the category that a line of
  the table adds to the list, if it adds one.
\<close>

definition row_id :: "nat \<Rightarrow> string \<Rightarrow> string option" where
  "row_id columnIndex line =
     (if includes_str line ''Proposal/Early Stage'' \<or> is_separator_row line then None
      else if \<not> startsWith line ''|'' then None
      else
        (let cells = filter (\<lambda>cell. cell \<noteq> []) (map trim (split_str CHR ''|'' line)) in
         if length cells < 3 then None
         else
           (case category_match (hd cells) of
              None \<Rightarrow> None
            | Some m \<Rightarrow>
                if length (cleanDescription
                     (if truthy (nth_opt cells columnIndex) then nth_opt cells columnIndex
                      else nth_opt cells 0)
                     (Some (toLowerCase m))) > 10
                then Some (toLowerCase m) else None)))"

section \<open>Orchestrator (evaluator.js) and its collaborators\<close>

subsection \<open>Prompt builder (api-config.js)\<close>

definition phase_name :: "phase \<Rightarrow> string" where
  "phase_name p = (case p of proposal \<Rightarrow> ''proposal'' | mid \<Rightarrow> ''mid'' | end_phase \<Rightarrow> ''end'')"

definition join :: "string \<Rightarrow> string list \<Rightarrow> string" where
  "join sep xs = (case xs of [] \<Rightarrow> [] | x # r \<Rightarrow> x @ concat (map (\<lambda>y. sep @ y) r))"

record prompts =
  systemPrompt :: string
  userPrompt :: string

definition system_prompt :: "phase \<Rightarrow> string" where
  \<open>system_prompt p =
     ''You are an expert Data Management Plan (DMP) evaluator for ''
     @ (case p of proposal \<Rightarrow> ''proposal/early stage'' | mid \<Rightarrow> ''mid-project''
        | end_phase \<Rightarrow> ''end-project'')
     @ '' research projects.\<newline>''
     @ ''\<newline>''
     @ ''Your task is to evaluate a DMP document against standardized criteria and provide:\<newline>''
     @ ''1. Quantitative scores (0-100) for each criterion\<newline>''
     @ ''2. Qualitative feedback highlighting strengths and areas for improvement\<newline>''
     @ ''\<newline>''
     @ ''Scoring guidance:\<newline>''
     @ ''- 90-100: Excellent - Fully addresses criterion with exemplary detail\<newline>''
     @ ''- 75-89: Good - Adequately addresses criterion with minor gaps\<newline>''
     @ ''- 60-74: Fair - Partially addresses criterion with notable gaps\<newline>''
     @ ''- 0-59: Poor - Does not adequately address criterion\<newline>''
     @ ''\<newline>''
     @ ''You must return your evaluation as a JSON object with this exact structure:\<newline>''
     @ ''{\<newline>''
     @ ''  "overallScore": <number 0-100>,\<newline>''
     @ ''  "categories": [\<newline>''
     @ ''    {\<newline>''
     @ ''      "id": "<criterion ID like 1a, 2b, etc>",\<newline>''
     @ ''      "name": "<criterion name>",\<newline>''
     @ ''      "score": <number 0-100>,\<newline>''
     @ ''      "status": "<excellent|good|fair|poor>",\<newline>''
     @ ''      "feedback": "<detailed feedback string>"\<newline>''
     @ ''    }\<newline>''
     @ ''  ]\<newline>''
     @ ''}''\<close>

definition buildEvaluationPrompt :: "criteria \<Rightarrow> string \<Rightarrow> phase \<Rightarrow> prompts" where
  \<open>buildEvaluationPrompt crit dmpText p =
     (let criteriaText =
            join [CHR 0x0A, CHR 0x0A]
              (map (\<lambda>cat. ''**'' @ cat_id cat @ '': '' @ cat_name cat @ ''**\<newline>''
                           @ cat_description cat)
                 (categories crit))
      in \<lparr> systemPrompt = system_prompt p,
           userPrompt =
             ''Please evaluate the following Data Management Plan for the ''
             @ phase_name p
             @ '' phase.\<newline>''
             @ ''\<newline>''
             @ ''## EVALUATION CRITERIA\<newline>''
             @ ''\<newline>''
             @ criteriaText
             @ ''\<newline>''
             @ ''\<newline>''
             @ ''## DMP DOCUMENT TO EVALUATE\<newline>''
             @ ''\<newline>''
             @ dmpText
             @ ''\<newline>''
             @ ''\<newline>''
             @ ''## INSTRUCTIONS\<newline>''
             @ ''\<newline>''
             @ ''1. Evaluate the DMP against each criterion listed above\<newline>''
             @ ''2. Assign a score (0-100) and status (excellent/good/fair/poor) for each criterion\<newline>''
             @ ''3. Provide specific, actionable feedback for each criterion\<newline>''
             @ ''4. Calculate an overall score as the average of all criteria scores\<newline>''
             @ ''5. Return the evaluation as a JSON object following the specified structure'' \<rparr>)\<close>

subsection \<open>File parser\<close>

text \<open>
  JavaScript can throw any value. The \<open>catch\<close> block of \<open>evaluate\<close> reads the
  \<open>message\<close> property of what it caught, so three kinds of thrown values are told apart:
  an \<open>Error\<close> (any value with a message, given by its message), a value other than
  \<open>null\<close> and \<open>undefined\<close> that has no message, such as a string or a number, and
  \<open>null\<close> or \<open>undefined\<close>, on which reading a property throws a \<open>TypeError\<close>.
\<close>

datatype thrown = Error string | NoMessage | Nullish

text \<open>\<open>error.message\<close> for a value that is not \<open>null\<close> or \<open>undefined\<close>.\<close>

definition message_of :: "thrown \<Rightarrow> string option" where
  "message_of error = (case error of Error msg \<Rightarrow> Some msg | _ \<Rightarrow> None)"

text \<open>
  The events of a run that the properties speak about: a message passed to the progress
  callback, and the four places where the run can cause network traffic. These are the
  request to the endpoint that cleans the text of a legacy document, the opening of a
  document by PDF.js, whose worker script is the address on the content delivery network
  that the module sets as \<open>workerSrc\<close>, the assignment of the content of an uploaded
  HTML file to \<open>innerHTML\<close>, on which the browser loads what the markup refers to, and
  the call of the model client.
\<close>

datatype event = Progress string | CleanupRequest | WorkerRequest | Markup string | EvaluateDMP


text \<open>A step yields the events it caused and either the value thrown or a value.\<close>

type_synonym 'a step = "event list \<times> (thrown + 'a)"

text \<open>
  The model client reports through a callback that it calls with objects: a status, a
  chunk of the streamed answer with the flag of reasoning content, or the completion.
\<close>

datatype progress_update = Status string | Stream string bool | Complete string

text \<open>
  A file has a name and a size. What the browser, the bundled libraries and the endpoint
  answer is collected in a record of the host: the text and the bytes a
  \<open>FileReader\<close> reads from a file (\<open>None\<close> when it fails), the re-serialisation of a
  JSON text (\<open>None\<close> when \<open>JSON.parse\<close> throws), the text extraction of mammoth and of
  PDF.js (\<open>None\<close> when the library is not loaded; a result is the message of the error
  thrown or the value), the text content of an HTML document without its scripts and
  styles, the settings kept in local storage, and the content of the endpoint's answer to
  a clean-up request (\<open>None\<close> when the request fails or carries no content).
  \<open>formatFileSize\<close> computes with floating-point numbers and is taken as given, as are
  the collation and the clock. \<open>evaluateDMP\<close> is the model client: what it does depends
  on the settings and on the answers of the endpoint; it is given the two prompts and
  the callback for its reports, which it may call, and it yields the events it caused
  and the raw results or the value thrown, which can be one thrown by the callback. The
  browser and the two libraries throw \<open>Error\<close> objects only. The endpoint profile kept in
  the settings is well formed, so that a clean-up request is sent whenever an API key is
  configured.
\<close>

record file_object =
  file_name :: string
  file_size :: nat

record host =
  readAsText :: "file_object \<Rightarrow> string option"
  readAsArrayBuffer :: "file_object \<Rightarrow> string option"
  JSON_reformat :: "string \<Rightarrow> string option"
  mammoth :: "(string \<Rightarrow> string + string) option"
  pdfjsLib :: "(string \<Rightarrow> string + string list list) option"
  html_textContent :: "string \<Rightarrow> string"
  llmTestMode :: bool
  togetherAPIKey :: "string option"
  togetherAIModel :: "string option"
  cleanup_answer :: "string \<Rightarrow> string option"
  formatFileSize :: "nat \<Rightarrow> string"
  evaluateDMP :: "string \<Rightarrow> string \<Rightarrow> (progress_update \<Rightarrow> unit step) \<Rightarrow> raw_results step"
  localeCompare :: "string \<Rightarrow> string \<Rightarrow> int"
  now :: string

definition return :: "'a \<Rightarrow> 'a step" where
  "return x = ([], Inr x)"

text \<open>\<open>throw new Error(msg)\<close>, or the rejection of a promise with it.\<close>

definition throw :: "string \<Rightarrow> 'a step" where
  "throw msg = ([], Inl (Error msg))"

definition emit :: "event \<Rightarrow> unit step" where
  "emit e = ([e], Inr ())"

definition and_then :: "'a step \<Rightarrow> ('a \<Rightarrow> 'b step) \<Rightarrow> 'b step" where
  "and_then m f =
     (case m of
        (es, Inl error) \<Rightarrow> (es, Inl error)
      | (es, Inr x) \<Rightarrow> (case f x of (es', r) \<Rightarrow> (es @ es', r)))"

text \<open>\<open>try { m } catch (e) { throw new Error(msg) }\<close>.\<close>

definition rethrow :: "'a step \<Rightarrow> string \<Rightarrow> 'a step" where
  "rethrow m msg =
     (case m of (es, Inl error) \<Rightarrow> (es, Inl (Error msg)) | (es, Inr x) \<Rightarrow> (es, Inr x))"

record parsed_file =
  parsed_text :: string
  parsed_type :: string
  isJson :: bool
  parsed_size :: nat
  parsed_name :: string

definition parseTextFile :: "host \<Rightarrow> file_object \<Rightarrow> string step" where
  "parseTextFile h f =
     (case readAsText h f of None \<Rightarrow> throw ''Text file read failed'' | Some t \<Rightarrow> return t)"

definition parseJsonFile :: "host \<Rightarrow> file_object \<Rightarrow> string step" where
  "parseJsonFile h f =
     and_then (parseTextFile h f) (\<lambda>t.
       case JSON_reformat h t of None \<Rightarrow> throw ''Invalid JSON format'' | Some j \<Rightarrow> return j)"

text \<open>\<open>/\s{3,}/g\<close> replaced by two newlines.\<close>

function paragraph_breaks :: "string \<Rightarrow> string" where
  "paragraph_breaks [] = []"
| "paragraph_breaks (c # s) =
     (if is_space c \<and> 2 \<le> length (takeWhile is_space s)
      then [CHR 0x0A, CHR 0x0A] @ paragraph_breaks (dropWhile is_space s)
      else c # paragraph_breaks s)"
  by pat_completeness auto
termination
  by (relation "measure length") (auto simp: less_Suc_eq_le length_dropWhile_le)

text \<open>\<open>/(.)\1{10,}/g\<close> replaced by the repeated character.\<close>

function squeeze_repetitions :: "string \<Rightarrow> string" where
  "squeeze_repetitions [] = []"
| "squeeze_repetitions (c # s) =
     (if c \<noteq> CHR 0x0A \<and> c \<noteq> CHR 0x0D \<and> 10 \<le> length (takeWhile (\<lambda>d. d = c) s)
      then c # squeeze_repetitions (dropWhile (\<lambda>d. d = c) s)
      else c # squeeze_repetitions s)"
  by pat_completeness auto
termination
  by (relation "measure length") (auto simp: less_Suc_eq_le length_dropWhile_le)

definition readable_byte :: "char \<Rightarrow> bool" where
  "readable_byte c =
     (let n = (of_char c :: nat)
      in (32 \<le> n \<and> n \<le> 126) \<or> n = 10 \<or> n = 13 \<or> n = 9 \<or> (128 \<le> n \<and> n \<le> 255))"

definition control_char :: "char \<Rightarrow> bool" where
  "control_char c =
     (let n = (of_char c :: nat)
      in n \<le> 8 \<or> (11 \<le> n \<and> n \<le> 12) \<or> (14 \<le> n \<and> n \<le> 31))"

definition cleanTextWithAI :: "host \<Rightarrow> string \<Rightarrow> string step" where
  "cleanTextWithAI h rawText =
     (if \<not> truthy (togetherAPIKey h) then return rawText
      else and_then (emit CleanupRequest) (\<lambda>_.
        case cleanup_answer h rawText of
          None \<Rightarrow> throw ''API error''
        | Some cleaned \<Rightarrow> if cleaned = [] then throw ''No content from AI'' else return cleaned))"

definition extractDocTextWithAI :: "host \<Rightarrow> string \<Rightarrow> string step" where
  "extractDocTextWithAI h bytes =
     (let rawText = filter readable_byte bytes;
          rawText = trim (squeeze_repetitions (paragraph_breaks
                      (filter (\<lambda>c. \<not> control_char c) rawText)))
      in if length rawText < 100
         then throw ''Insufficient text extracted from .doc file. Please save as .docx or paste text.''
         else if \<not> llmTestMode h then
           (case cleanTextWithAI h rawText of
              (es, Inl aiError) \<Rightarrow> (es, Inr rawText)
            | (es, Inr cleaned) \<Rightarrow> (es, Inr cleaned))
         else return rawText)"

definition parseDocxFile :: "host \<Rightarrow> file_object \<Rightarrow> string step" where
  "parseDocxFile h f =
     (case mammoth h of
        None \<Rightarrow> throw ''Mammoth.js library not loaded''
      | Some extractRawText \<Rightarrow>
          (case readAsArrayBuffer h f of
             None \<Rightarrow> throw ''File read failed''
           | Some bytes \<Rightarrow>
               if \<not> (take 2 bytes = [CHR 0x50, CHR 0x4B]) then
                 rethrow (extractDocTextWithAI h bytes)
                   (''DOC file could not be parsed. Try: Save as .docx or use ''
                    @ [CHR 0x22] @ ''Paste Text Instead'' @ [CHR 0x22] @ ''.'')
               else
                 (case extractRawText bytes of
                    Inr v \<Rightarrow> return v
                  | Inl error \<Rightarrow>
                      if error \<noteq> [] \<and> includes_str error ''end of central directory''
                      then throw ''File corrupted. Try: Save as .docx or paste text instead.''
                      else throw (''Parse error: '' @ substring error 0 50 @ ''...''))))"

definition parsePdfFile :: "host \<Rightarrow> file_object \<Rightarrow> string step" where
  "parsePdfFile h f =
     (case pdfjsLib h of
        None \<Rightarrow> throw ''PDF.js library not loaded''
      | Some getDocument \<Rightarrow>
          (case readAsArrayBuffer h f of
             None \<Rightarrow> throw ''PDF read failed''
           | Some bytes \<Rightarrow>
               and_then (emit WorkerRequest) (\<lambda>_.
                 case getDocument bytes of
                   Inl error \<Rightarrow> throw (''PDF parse error: '' @ substring error 0 40 @ ''...'')
                 | Inr pages \<Rightarrow>
                     return (trim (concat (map (\<lambda>items. join '' '' items @ [CHR 0x0A, CHR 0x0A])
                                             pages))))))"

definition parseHtmlFile :: "host \<Rightarrow> file_object \<Rightarrow> string step" where
  "parseHtmlFile h f =
     and_then (parseTextFile h f) (\<lambda>html.
     and_then (emit (Markup html)) (\<lambda>_.
       return (trim (collapse_spaces (html_textContent h html)))))"

text \<open>\<open>file.name.toLowerCase().split('.').pop()\<close>, the \<open>extension\<close> of \<open>parseFile\<close>.\<close>

definition file_extension :: "file_object \<Rightarrow> string" where
  "file_extension f = last (split_str CHR ''.'' (toLowerCase (file_name f)))"

definition parseFile :: "host \<Rightarrow> file_object \<Rightarrow> parsed_file step" where
  "parseFile h f =
     (let extension = file_extension f;
          decoded =
            (if extension = ''txt'' then parseTextFile h f
             else if extension = ''json'' then parseJsonFile h f
             else if extension = ''docx'' \<or> extension = ''doc'' then parseDocxFile h f
             else if extension = ''pdf'' then parsePdfFile h f
             else if extension = ''html'' \<or> extension = ''htm'' then parseHtmlFile h f
             else if extension = ''md'' \<or> extension = ''markdown'' then parseTextFile h f
             else throw (''Unsupported file type: .'' @ extension))
      in and_then decoded (\<lambda>t.
           return \<lparr> parsed_text = t, parsed_type = extension, isJson = (extension = ''json''),
                    parsed_size = file_size f, parsed_name = file_name f \<rparr>))"

subsection \<open>Orchestrator\<close>

text \<open>
  The progress callback is optional; called with a message it returns (\<open>None\<close>) or
  throws the given value.
\<close>

definition updateProgress :: "(string \<Rightarrow> thrown option) option \<Rightarrow> string \<Rightarrow> unit step" where
  "updateProgress callback msg =
     (case callback of
        None \<Rightarrow> return ()
      | Some cb \<Rightarrow>
          (case cb msg of
             None \<Rightarrow> ([Progress msg], Inr ())
           | Some error \<Rightarrow> ([Progress msg], Inl error)))"

definition endsWith :: "string \<Rightarrow> string \<Rightarrow> bool" where
  "endsWith s suffix =
     (length suffix \<le> length s \<and> drop (length s - length suffix) s = suffix)"

definition DEFAULT_MODEL :: string where
  "DEFAULT_MODEL = ''Qwen/Qwen3-235B-A22B-Instruct-2507-tput''"

definition getSelectedModel :: "host \<Rightarrow> string" where
  "getSelectedModel h = str_or (togetherAIModel h) DEFAULT_MODEL"

record metadata =
  meta_criteriaFile :: string
  meta_dmpFile :: string
  meta_phase :: phase
  evaluationDate :: string
  meta_model :: "string option"

record evaluation =
  success :: bool
  eval_results :: "results option"
  eval_error :: "string option"
  eval_metadata :: metadata

text \<open>
  The template literal \<open>`AI: ${msg}`\<close> of the callback handed to the model client
  converts the object it is called with to a string, which is the same for every object.
\<close>

definition ToString :: "progress_update \<Rightarrow> string" where
  "ToString msg = ''[object Object]''"

text \<open>The body of the \<open>try\<close> block.\<close>

definition evaluate_steps ::
  "host \<Rightarrow> file_object \<Rightarrow> file_object \<Rightarrow> phase \<Rightarrow> (string \<Rightarrow> thrown option) option
     \<Rightarrow> results step" where
  "evaluate_steps h criteriaFile dmpFile p onProgress =
     (let isDocCriteria = endsWith (toLowerCase (file_name criteriaFile)) ''.doc'' in
      and_then (updateProgress onProgress
                  (if isDocCriteria then ''Extracting .doc file with AI...''
                   else ''Parsing evaluation criteria...'')) (\<lambda>_.
      and_then (parseFile h criteriaFile) (\<lambda>criteriaData.
      let crit = extractCriteria (parsed_text criteriaData) p;
          criteriaValidation = validateCriteria crit in
      and_then (if \<not> valid criteriaValidation
                then throw (''Invalid criteria: '' @ message criteriaValidation)
                else return ()) (\<lambda>_.
      and_then (updateProgress onProgress
                  (''Criteria loaded: '' @ decimal (length (categories crit)) @ '' categories'')) (\<lambda>_.
      let isDocDmp = endsWith (toLowerCase (file_name dmpFile)) ''.doc'' in
      and_then (updateProgress onProgress
                  (if isDocDmp then ''Extracting .doc file with AI...''
                   else ''Parsing DMP document...'')) (\<lambda>_.
      and_then (parseFile h dmpFile) (\<lambda>dmpData.
      and_then (updateProgress onProgress
                  (''DMP document parsed: '' @ formatFileSize h (parsed_size dmpData))) (\<lambda>_.
      and_then (if length (parsed_text dmpData) < 100
                then throw ''DMP document is too short. Please provide a complete DMP.''
                else return ()) (\<lambda>_.
      and_then (updateProgress onProgress ''Building evaluation prompt...'') (\<lambda>_.
      let prompts = buildEvaluationPrompt crit (parsed_text dmpData) p in
      and_then (updateProgress onProgress ''Evaluating DMP with AI...'') (\<lambda>_.
      and_then (emit EvaluateDMP) (\<lambda>_.
      and_then (evaluateDMP h (systemPrompt prompts) (userPrompt prompts)
                  (\<lambda>msg. updateProgress onProgress (''AI: '' @ ToString msg))) (\<lambda>rawResults.
      and_then (updateProgress onProgress ''Processing results...'') (\<lambda>_.
      let processedResults = processResults (localeCompare h) rawResults crit in
      and_then (updateProgress onProgress ''Evaluation complete!'') (\<lambda>_.
      return processedResults)))))))))))))))"

text \<open>
  \<open>evaluate\<close>: the \<open>try\<close> block with its \<open>catch\<close>. The promise is fulfilled with
  the object that either block returns. When the value caught is \<open>null\<close> or
  \<open>undefined\<close>, reading \<open>error.message\<close> in the \<open>catch\<close> block throws a
  \<open>TypeError\<close>, and the promise is rejected with it. For a caught value without a
  message the \<open>error\<close> of the object is \<open>undefined\<close>.
\<close>

datatype settlement = Fulfilled evaluation | RejectedTypeError

definition evaluate ::
  "host \<Rightarrow> file_object \<Rightarrow> file_object \<Rightarrow> phase \<Rightarrow> (string \<Rightarrow> thrown option) option
     \<Rightarrow> event list \<times> settlement" where
  "evaluate h criteriaFile dmpFile p onProgress =
     (case evaluate_steps h criteriaFile dmpFile p onProgress of
        (es, Inr processedResults) \<Rightarrow>
          (es, Fulfilled
                 \<lparr> success = True, eval_results = Some processedResults, eval_error = None,
                   eval_metadata =
                     \<lparr> meta_criteriaFile = file_name criteriaFile,
                       meta_dmpFile = file_name dmpFile,
                       meta_phase = p, evaluationDate = now h,
                       meta_model = Some (getSelectedModel h) \<rparr> \<rparr>)
      | (es, Inl error) \<Rightarrow>
          (case error of
             Nullish \<Rightarrow> (es, RejectedTypeError)
           | _ \<Rightarrow>
               (es, Fulfilled
                      \<lparr> success = False, eval_results = None, eval_error = message_of error,
                        eval_metadata =
                          \<lparr> meta_criteriaFile = file_name criteriaFile,
                            meta_dmpFile = file_name dmpFile,
                            meta_phase = p, evaluationDate = now h, meta_model = None \<rparr> \<rparr>)))"
section \<open>Properties of the result normalizer\<close>

lemma Math_round_div:
  assumes "0 < n"
  shows "Math_round (of_int s / of_int n) = (2 * s + n) div (2 * n)"
proof -
  have "(of_int s / of_int n :: rat) + 1 / 2 = of_int (2 * s + n) / of_int (2 * n)"
    using assms by (simp add: field_simps)
  then show ?thesis
    unfolding Math_round_def by (simp only: floor_divide_of_int_eq)
qed

lemma mset_takeWhile_dropWhile: "mset (dropWhile P ys) + mset (takeWhile P ys) = mset ys"
proof -
  have "mset (takeWhile P ys) + mset (dropWhile P ys) = mset (takeWhile P ys @ dropWhile P ys)"
    by (simp only: mset_append)
  also have "\<dots> = mset ys"
    by (simp only: takeWhile_dropWhile_id)
  finally show ?thesis
    by (simp only: add.commute)
qed

lemma mset_sort_insert: "mset (sort_insert comparefn acc x) = add_mset x (mset acc)"
  using mset_takeWhile_dropWhile [of "\<lambda>y. positive (comparefn y x)" "rev acc"]
  by (simp add: sort_insert_def)

lemma mset_foldl_sort_insert:
  "mset (foldl (sort_insert comparefn) acc xs) = mset acc + mset xs"
  by (induction xs arbitrary: acc) (simp_all add: mset_sort_insert)

lemma mset_Array_sort: "mset (Array_sort comparefn xs) = mset xs"
  by (simp add: Array_sort_def mset_foldl_sort_insert)

lemma set_Array_sort: "set (Array_sort comparefn xs) = set xs"
  using mset_Array_sort [of comparefn xs] by (metis set_mset_mset)

lemma length_Array_sort: "length (Array_sort comparefn xs) = length xs"
  using mset_Array_sort [of comparefn xs] by (metis size_mset)

lemma result_categories_processResults:
  "result_categories (processResults lc rawResults crit)
     = Array_sort (compare_by_id lc) (fill_missing (mapped_categories rawResults) (categories crit))"
  by (simp add: processResults_def Let_def)

lemma overallScore_processResults:
  "overallScore (processResults lc rawResults crit)
     = recalculate (or_zero (raw_overallScore rawResults)) (mapped_categories rawResults)"
  by (simp add: processResults_def Let_def)

lemma set_result_categories:
  "set (result_categories (processResults lc rawResults crit))
     = set (mapped_categories rawResults)
       \<union> placeholder ` {critCat \<in> set (categories crit).
            cat_id critCat \<notin> res_id ` set (mapped_categories rawResults)}"
  by (auto simp: result_categories_processResults set_Array_sort fill_missing_def)

subsection \<open>Scores of the result normalizer\<close>

lemma score_map_category:
  "score (map_category cat) = NotANumber \<and> raw_score cat = Some NotANumber
   \<or> (\<exists>k. score (map_category cat) = Number k \<and> 0 \<le> k \<and> k \<le> 100)"
  by (auto simp: map_category_def Let_def or_zero_def Math_min_def Math_max_def
      split: option.splits score_value.splits)

lemma score_map_category_Number:
  assumes "or_zero (raw_score cat) = Number k"
  shows "score (map_category cat) = Number (min 100 (max 0 k))"
  using assms by (simp add: map_category_def Let_def Math_min_def Math_max_def)


lemma determineStatus_clamp:
  "determineStatus (Math_min (Number 100) (Math_max (Number 0) v)) = determineStatus v"
  by (cases v) (simp_all add: determineStatus_def at_least_def Math_min_def Math_max_def min_def max_def)

lemma status_map_category:
  assumes "raw_status cat = None \<or> raw_status cat = Some []"
  shows "status (map_category cat) = determineStatus (score (map_category cat))"
  using assms by (auto simp: map_category_def Let_def str_or_def determineStatus_clamp)


lemma foldl_plus_value_Number:
  assumes "map score cats = map Number ks"
  shows "foldl (\<lambda>acc cat. plus_value acc (score cat)) (Number a) cats = Number (a + sum_list ks)"
  using assms
proof (induction cats arbitrary: a ks)
  case Nil
  then show ?case by simp
next
  case (Cons c cats)
  then obtain k ks' where ks: "ks = k # ks'" "score c = Number k" "map score cats = map Number ks'"
    by (cases ks) auto
  with Cons.IH [of ks' "a + k"] show ?case
    by (simp add: plus_value_def add.assoc)
qed

lemma foldl_plus_value_NotANumber:
  "foldl (\<lambda>acc cat. plus_value acc (score cat)) NotANumber cats = NotANumber"
  by (induction cats) (simp_all add: plus_value_def)

lemma foldl_plus_value_some_NotANumber:
  assumes "NotANumber \<in> score ` set cats"
  shows "foldl (\<lambda>acc cat. plus_value acc (score cat)) v cats = NotANumber"
  using assms
proof (induction cats arbitrary: v)
  case Nil
  then show ?case by simp
next
  case (Cons c cats)
  show ?case
  proof (cases "score c = NotANumber")
    case True
    then have "plus_value v (score c) = NotANumber"
      by (simp add: plus_value_def split: score_value.splits)
    then show ?thesis
      by (simp add: foldl_plus_value_NotANumber)
  next
    case False
    with Cons.prems have "NotANumber \<in> score ` set cats"
      by auto
    then show ?thesis
      by (simp add: Cons.IH)
  qed
qed

lemma recalculate_Number:
  assumes "map score cats = map Number ks" and "cats \<noteq> []"
  shows "recalculate (Number 0) cats
     = Number ((2 * sum_list ks + int (length ks)) div (2 * int (length ks)))"
proof -
  from assms have n: "length cats = length ks" "0 < int (length ks)"
    by (auto dest: map_eq_imp_length_eq)
  have r: "Math_round (of_int (sum_list ks) / of_int (int (length ks)))
      = (2 * sum_list ks + int (length ks)) div (2 * int (length ks))"
    using n(2) by (rule Math_round_div)
  have "recalculate (Number 0) cats
      = round_quotient (foldl (\<lambda>acc cat. plus_value acc (score cat)) (Number 0) cats) (length cats)"
    using assms(2) by (simp add: recalculate_def Let_def)
  also have "\<dots> = round_quotient (Number (sum_list ks)) (length ks)"
    by (simp add: foldl_plus_value_Number [OF assms(1)] n(1))
  also have "\<dots> = Number (Math_round (of_int (sum_list ks) / of_int (int (length ks))))"
    by (simp only: round_quotient_def score_value.case)
  finally show ?thesis
    by (simp only: r)
qed

lemma or_zero_overall:
  "raw_overallScore rawResults = None \<or> raw_overallScore rawResults = Some (Number 0)
     \<longleftrightarrow> or_zero (raw_overallScore rawResults) = Number 0"
  by (auto simp: or_zero_def split: option.splits)



text \<open>
  Claim C10. The recomputed \<open>overallScore\<close> is the rounded mean over the categories
  present in the raw output only: it is taken before the placeholders are appended, so it
  is the same for every rubric, its divisor is the number of raw categories, and the
  placeholders of score 0 that end up in the result list do not enter it.
\<close>

theorem processResults_mean_before_placeholders:
  "overallScore (processResults lc rawResults crit) = overallScore (processResults lc rawResults crit')
   \<and> ((raw_overallScore rawResults = None \<or> raw_overallScore rawResults = Some (Number 0))
        \<and> mapped_categories rawResults \<noteq> [] \<longrightarrow>
        (\<forall>ks. map score (mapped_categories rawResults) = map Number ks \<longrightarrow>
           overallScore (processResults lc rawResults crit)
             = Number ((2 * sum_list ks + int (length (mapped_categories rawResults)))
                       div (2 * int (length (mapped_categories rawResults)))))
        \<and> (NotANumber \<in> score ` set (mapped_categories rawResults) \<longrightarrow>
           overallScore (processResults lc rawResults crit) = NotANumber))
   \<and> mset (result_categories (processResults lc rawResults crit))
        = mset (mapped_categories rawResults)
          + mset (map placeholder
               (filter (\<lambda>critCat. cat_id critCat \<notin> set (map res_id (mapped_categories rawResults)))
                  (categories crit)))"
proof (intro conjI impI allI)
  show "overallScore (processResults lc rawResults crit) = overallScore (processResults lc rawResults crit')"
    by (simp add: overallScore_processResults)
next
  fix ks
  assume h: "(raw_overallScore rawResults = None \<or> raw_overallScore rawResults = Some (Number 0))
        \<and> mapped_categories rawResults \<noteq> []"
    and k: "map score (mapped_categories rawResults) = map Number ks"
  from h have o: "or_zero (raw_overallScore rawResults) = Number 0"
    by (simp only: or_zero_overall)
  from k have len: "length (mapped_categories rawResults) = length ks"
    by (auto dest: map_eq_imp_length_eq)
  from h have "mapped_categories rawResults \<noteq> []"
    by simp
  with k have "recalculate (Number 0) (mapped_categories rawResults)
      = Number ((2 * sum_list ks + int (length ks)) div (2 * int (length ks)))"
    by (rule recalculate_Number)
  with o show "overallScore (processResults lc rawResults crit)
      = Number ((2 * sum_list ks + int (length (mapped_categories rawResults)))
                div (2 * int (length (mapped_categories rawResults))))"
    by (simp add: overallScore_processResults len)
next
  assume h: "(raw_overallScore rawResults = None \<or> raw_overallScore rawResults = Some (Number 0))
        \<and> mapped_categories rawResults \<noteq> []"
    and k: "NotANumber \<in> score ` set (mapped_categories rawResults)"
  from h have o: "or_zero (raw_overallScore rawResults) = Number 0"
    by (simp only: or_zero_overall)
  from k have "foldl (\<lambda>acc cat. plus_value acc (score cat)) (Number 0) (mapped_categories rawResults)
      = NotANumber"
    by (rule foldl_plus_value_some_NotANumber)
  with h o show "overallScore (processResults lc rawResults crit) = NotANumber"
    by (simp add: overallScore_processResults recalculate_def Let_def round_quotient_def)
next
  show "mset (result_categories (processResults lc rawResults crit))
        = mset (mapped_categories rawResults)
          + mset (map placeholder
               (filter (\<lambda>critCat. cat_id critCat \<notin> set (map res_id (mapped_categories rawResults)))
                  (categories crit)))"
    by (simp add: result_categories_processResults mset_Array_sort fill_missing_def)
qed

theorem processResults_mean_before_placeholders_witness:
  "overallScore (processResults code_unit_compare
      \<lparr> raw_overallScore = None,
        raw_categories = Some
          [\<lparr> raw_id = Some ''1a'', raw_name = None, raw_score = Some (Number 80),
             raw_status = None, raw_feedback = None \<rparr>] \<rparr>
      \<lparr> phase = proposal,
        categories = [\<lparr> cat_id = ''1a'', cat_name = ''A'', cat_description = ''a'' \<rparr>,
                      \<lparr> cat_id = ''1b'', cat_name = ''B'', cat_description = ''b'' \<rparr>] \<rparr>) = Number 80
   \<and> map score (result_categories (processResults code_unit_compare
      \<lparr> raw_overallScore = None,
        raw_categories = Some
          [\<lparr> raw_id = Some ''1a'', raw_name = None, raw_score = Some (Number 80),
             raw_status = None, raw_feedback = None \<rparr>] \<rparr>
      \<lparr> phase = proposal,
        categories = [\<lparr> cat_id = ''1a'', cat_name = ''A'', cat_description = ''a'' \<rparr>,
                      \<lparr> cat_id = ''1b'', cat_name = ''B'', cat_description = ''b'' \<rparr>] \<rparr>))
       = [Number 80, Number 0]"
proof
  let ?raw = "\<lparr> raw_overallScore = None,
        raw_categories = Some
          [\<lparr> raw_id = Some ''1a'', raw_name = None, raw_score = Some (Number 80),
             raw_status = None, raw_feedback = None \<rparr>] \<rparr>"
  let ?crit = "\<lparr> phase = proposal,
        categories = [\<lparr> cat_id = ''1a'', cat_name = ''A'', cat_description = ''a'' \<rparr>,
                      \<lparr> cat_id = ''1b'', cat_name = ''B'', cat_description = ''b'' \<rparr>] \<rparr>"
  have m: "mapped_categories ?raw
      = [\<lparr> res_id = ''1a'', res_name = ''Unknown Category'', score = Number 80, status = ''good'',
           feedback = ''No feedback provided'' \<rparr>]"
    by code_simp
  have h: "(raw_overallScore ?raw = None \<or> raw_overallScore ?raw = Some (Number 0))
      \<and> mapped_categories ?raw \<noteq> []"
    by (simp add: m)
  have k: "map score (mapped_categories ?raw) = map Number [80]"
    by (simp add: m)
  from processResults_mean_before_placeholders [of code_unit_compare ?raw ?crit ?crit,
      THEN conjunct2, THEN conjunct1, rule_format, OF h, THEN conjunct1, rule_format, OF k]
  show "overallScore (processResults code_unit_compare ?raw ?crit) = Number 80"
    by (simp add: m)
  show "map score (result_categories (processResults code_unit_compare ?raw ?crit))
      = [Number 80, Number 0]"
    by code_simp
qed

text \<open>
  Scores that are numbers are clamped: a missing score becomes 0, a number \<open>k\<close> becomes
  \<open>min 100 (max 0 k)\<close>, and when no raw score is a non-number every score of the result
  lies in [0,100]. A raw category without a status gets the one \<open>determineStatus\<close> gives
  for its score, with the boundaries 90 excellent, 89 and 75 good, 74 and 60 fair, 59 and
  0 poor.
\<close>

lemma processResults_numeric_scores_clamped:
  "(\<forall>c \<in> set (result_categories (processResults lc rawResults crit)).
        score c = NotANumber \<or> (\<exists>k. score c = Number k \<and> 0 \<le> k \<and> k \<le> 100))
   \<and> (\<forall>cs. raw_categories rawResults = Some cs
          \<and> (\<forall>cat \<in> set cs. raw_score cat \<noteq> Some NotANumber) \<longrightarrow>
          (\<forall>c \<in> set (result_categories (processResults lc rawResults crit)).
              \<exists>k. score c = Number k \<and> 0 \<le> k \<and> k \<le> 100))
   \<and> (\<forall>cs cat. raw_categories rawResults = Some cs \<and> cat \<in> set cs \<longrightarrow>
          map_category cat \<in> set (result_categories (processResults lc rawResults crit))
          \<and> (raw_score cat = None \<longrightarrow> score (map_category cat) = Number 0)
          \<and> (\<forall>k. raw_score cat = Some (Number k) \<longrightarrow>
                 score (map_category cat) = Number (min 100 (max 0 k)))
          \<and> (raw_status cat = None \<longrightarrow>
                 status (map_category cat) = determineStatus (score (map_category cat))))
   \<and> determineStatus (Number 90) = ''excellent'' \<and> determineStatus (Number 89) = ''good''
   \<and> determineStatus (Number 75) = ''good'' \<and> determineStatus (Number 74) = ''fair''
   \<and> determineStatus (Number 60) = ''fair'' \<and> determineStatus (Number 59) = ''poor''
   \<and> determineStatus (Number 0) = ''poor''"
proof (intro conjI ballI allI impI)
  fix c assume "c \<in> set (result_categories (processResults lc rawResults crit))"
  then consider (raw) cat where "c = map_category cat"
    | (filled) critCat where "c = placeholder critCat"
    by (auto simp: set_result_categories mapped_categories_def split: option.splits)
  then show "score c = NotANumber \<or> (\<exists>k. score c = Number k \<and> 0 \<le> k \<and> k \<le> 100)"
  proof cases
    case raw
    with score_map_category [of cat] show ?thesis by auto
  next
    case filled
    then show ?thesis by (simp add: placeholder_def)
  qed
next
  fix cs c
  assume h: "raw_categories rawResults = Some cs
      \<and> (\<forall>cat \<in> set cs. raw_score cat \<noteq> Some NotANumber)"
    and c: "c \<in> set (result_categories (processResults lc rawResults crit))"
  from c h consider (raw) cat where "c = map_category cat" "cat \<in> set cs"
    | (filled) critCat where "c = placeholder critCat"
    by (auto simp: set_result_categories mapped_categories_def)
  then show "\<exists>k. score c = Number k \<and> 0 \<le> k \<and> k \<le> 100"
  proof cases
    case raw
    with h have "raw_score cat \<noteq> Some NotANumber" by simp
    with score_map_category [of cat] raw show ?thesis by auto
  next
    case filled
    then show ?thesis by (simp add: placeholder_def)
  qed
next
  fix cs cat assume h: "raw_categories rawResults = Some cs \<and> cat \<in> set cs"
  then show "map_category cat \<in> set (result_categories (processResults lc rawResults crit))"
    by (simp add: set_result_categories mapped_categories_def)
  show "score (map_category cat) = Number 0" if "raw_score cat = None"
    using that score_map_category_Number [of cat 0] by (simp add: or_zero_def)
  show "score (map_category cat) = Number (min 100 (max 0 k))"
    if "raw_score cat = Some (Number k)" for k
    using that score_map_category_Number [of cat k] by (simp add: or_zero_def)
  show "status (map_category cat) = determineStatus (score (map_category cat))"
    if "raw_status cat = None"
    using that by (simp add: status_map_category)
qed (simp_all add: determineStatus_def at_least_def)

text \<open>
  Claim C5 says that every score of the result is clamped into [0,100], and the source
  comments the line with "Clamp to 0-100". The code does not do that for a score that is
  not a number: for the model output \<open>{overallScore: 70, categories: [{id: '1a', name:
  'Data', score: 'high', feedback: 'ok'}]}\<close> the expression
  \<open>Math.min(100, Math.max(0, 'high'))\<close> is \<open>NaN\<close>, so the category is returned with the score
  \<open>NaN\<close>, which is not in [0,100], and with the status \<open>poor\<close>, whatever the collation.
\<close>

theorem processResults_score_not_a_number:
  "map (\<lambda>c. (res_id c, score c, status c))
     (result_categories (processResults lc
        \<lparr> raw_overallScore = Some (Number 70),
          raw_categories = Some
            [\<lparr> raw_id = Some ''1a'', raw_name = Some ''Data'', raw_score = Some NotANumber,
               raw_status = None, raw_feedback = Some ''ok'' \<rparr>] \<rparr>
        \<lparr> phase = proposal,
          categories = [\<lparr> cat_id = ''1a'', cat_name = ''Data'', cat_description = ''d'' \<rparr>] \<rparr>))
     = [(''1a'', NotANumber, ''poor'')]"
  by (simp add: processResults_def mapped_categories_def map_category_def fill_missing_def
      placeholder_def Array_sort_def sort_insert_def str_or_def or_zero_def Math_min_def
      Math_max_def determineStatus_def at_least_def Let_def recalculate_def)

text \<open>
  Claim C1 as stated fails: a raw category whose id is not in the rubric is kept, so a
  rubric of one category can give a result of two.
\<close>

theorem processResults_extra_category_counterexample:
  "map res_id (result_categories (processResults code_unit_compare
      \<lparr> raw_overallScore = Some (Number 50),
        raw_categories = Some
          [\<lparr> raw_id = Some ''9z'', raw_name = Some ''Extra'', raw_score = Some (Number 50),
             raw_status = Some ''poor'', raw_feedback = Some ''none'' \<rparr>] \<rparr>
      \<lparr> phase = proposal,
        categories = [\<lparr> cat_id = ''1a'', cat_name = ''A'', cat_description = ''a'' \<rparr>] \<rparr>))
     = [''1a'', ''9z'']
   \<and> length (categories \<lparr> phase = proposal,
        categories = [\<lparr> cat_id = ''1a'', cat_name = ''A'', cat_description = ''a'' \<rparr>] \<rparr>) = 1"
  by code_simp

text \<open>
  Claim C1, amended. The result covers every rubric id. Each rubric category whose id is
  not among the ids of the normalized raw categories is in the result as a placeholder of
  that id with score 0, status poor and the fixed feedback text. When the rubric's ids
  are pairwise distinct and the normalized raw categories carry pairwise-distinct ids that
  all belong to the rubric, the result has exactly as many entries as the rubric and holds
  each rubric id exactly once.
\<close>

theorem processResults_covers_rubric:
  "cat_id ` set (categories crit)
      \<subseteq> res_id ` set (result_categories (processResults lc rawResults crit))
   \<and> (\<forall>critCat \<in> set (categories crit).
          cat_id critCat \<notin> res_id ` set (mapped_categories rawResults) \<longrightarrow>
          placeholder critCat \<in> set (result_categories (processResults lc rawResults crit))
          \<and> res_id (placeholder critCat) = cat_id critCat
          \<and> score (placeholder critCat) = Number 0
          \<and> status (placeholder critCat) = ''poor''
          \<and> feedback (placeholder critCat)
               = ''This criterion was not evaluated. Please review the DMP for this section.'')
   \<and> (distinct (map cat_id (categories crit))
        \<and> distinct (map res_id (mapped_categories rawResults))
        \<and> res_id ` set (mapped_categories rawResults) \<subseteq> cat_id ` set (categories crit) \<longrightarrow>
        length (result_categories (processResults lc rawResults crit)) = length (categories crit)
        \<and> mset (map res_id (result_categories (processResults lc rawResults crit)))
             = mset (map cat_id (categories crit)))"
proof (intro conjI ballI impI)
  show "cat_id ` set (categories crit)
      \<subseteq> res_id ` set (result_categories (processResults lc rawResults crit))"
  proof
    fix i assume "i \<in> cat_id ` set (categories crit)"
    then obtain critCat where c: "critCat \<in> set (categories crit)" "i = cat_id critCat"
      by blast
    show "i \<in> res_id ` set (result_categories (processResults lc rawResults crit))"
    proof (cases "i \<in> res_id ` set (mapped_categories rawResults)")
      case True
      then show ?thesis by (auto simp: set_result_categories)
    next
      case False
      with c have "placeholder critCat \<in> set (result_categories (processResults lc rawResults crit))"
        by (auto simp: set_result_categories)
      moreover have "res_id (placeholder critCat) = i"
        using c by (simp add: placeholder_def)
      ultimately show ?thesis by force
    qed
  qed
next
  fix critCat
  assume "critCat \<in> set (categories crit)"
    and "cat_id critCat \<notin> res_id ` set (mapped_categories rawResults)"
  then show "placeholder critCat \<in> set (result_categories (processResults lc rawResults crit))"
    by (auto simp: set_result_categories)
next
  assume h: "distinct (map cat_id (categories crit))
        \<and> distinct (map res_id (mapped_categories rawResults))
        \<and> res_id ` set (mapped_categories rawResults) \<subseteq> cat_id ` set (categories crit)"
  let ?m = "mapped_categories rawResults"
  let ?missing = "filter (\<lambda>critCat. cat_id critCat \<notin> set (map res_id ?m)) (categories crit)"
  let ?ids = "map res_id ?m @ map cat_id ?missing"
  have l: "map res_id (fill_missing ?m (categories crit)) = ?ids"
    by (simp add: fill_missing_def placeholder_def o_def)
  have ids: "mset (map res_id (result_categories (processResults lc rawResults crit))) = mset ?ids"
  proof -
    have "mset (map res_id (result_categories (processResults lc rawResults crit)))
        = image_mset res_id (mset (fill_missing ?m (categories crit)))"
      by (simp add: result_categories_processResults mset_Array_sort)
    also have "\<dots> = mset (map res_id (fill_missing ?m (categories crit)))"
      by simp
    finally show ?thesis
      by (simp only: l)
  qed
  have "distinct (map cat_id ?missing)"
    using h by (simp add: distinct_map_filter)
  moreover have "set (map res_id ?m) \<inter> set (map cat_id ?missing) = {}"
    by (auto simp: image_iff)
  ultimately have d: "distinct ?ids"
    using h by (simp only: distinct_append)
  have s: "set ?ids = set (map cat_id (categories crit))"
    using h by auto
  from d s h have m: "mset ?ids = mset (map cat_id (categories crit))"
    by (simp only: set_eq_iff_mset_eq_distinct [symmetric])
  with ids show "mset (map res_id (result_categories (processResults lc rawResults crit)))
             = mset (map cat_id (categories crit))"
    by simp
  then have "size (mset (map res_id (result_categories (processResults lc rawResults crit))))
      = size (mset (map cat_id (categories crit)))"
    by simp
  then show "length (result_categories (processResults lc rawResults crit)) = length (categories crit)"
    by simp
qed (simp_all add: placeholder_def)

theorem processResults_covers_rubric_witness:
  "(let out = result_categories (processResults code_unit_compare
        \<lparr> raw_overallScore = None,
          raw_categories = Some
            [\<lparr> raw_id = Some ''1b'', raw_name = Some ''B'', raw_score = Some (Number 70),
               raw_status = None, raw_feedback = None \<rparr>] \<rparr>
        \<lparr> phase = proposal,
          categories = [\<lparr> cat_id = ''1a'', cat_name = ''A'', cat_description = ''a'' \<rparr>,
                        \<lparr> cat_id = ''1b'', cat_name = ''B'', cat_description = ''b'' \<rparr>] \<rparr>)
    in length out = 2 \<and> mset (map res_id out) = mset [''1a'', ''1b'']
       \<and> placeholder \<lparr> cat_id = ''1a'', cat_name = ''A'', cat_description = ''a'' \<rparr> \<in> set out)"
proof -
  let ?raw = "\<lparr> raw_overallScore = None,
          raw_categories = Some
            [\<lparr> raw_id = Some ''1b'', raw_name = Some ''B'', raw_score = Some (Number 70),
               raw_status = None, raw_feedback = None \<rparr>] \<rparr>"
  let ?crit = "\<lparr> phase = proposal,
          categories = [\<lparr> cat_id = ''1a'', cat_name = ''A'', cat_description = ''a'' \<rparr>,
                        \<lparr> cat_id = ''1b'', cat_name = ''B'', cat_description = ''b'' \<rparr>] \<rparr>"
  have m: "mapped_categories ?raw
      = [\<lparr> res_id = ''1b'', res_name = ''B'', score = Number 70, status = ''fair'',
           feedback = ''No feedback provided'' \<rparr>]"
    by code_simp
  show ?thesis
    unfolding Let_def
    using processResults_covers_rubric [of ?crit code_unit_compare ?raw]
    by (simp add: m)
qed

text \<open>
  Claim C9 at an input the final sort does not order. The sort compares by
  \<open>parseInt\<close> of the id and, on equal numbers, by \<open>localeCompare\<close>. A raw category
  without an id gets the id \<open>unknown\<close>, for which \<open>parseInt\<close> is \<open>NaN\<close>; every
  comparison with it is \<open>NaN\<close> and counts as a tie. With raw categories \<open>2a\<close>, one
  without id, and \<open>1a\<close>, the result keeps \<open>2a\<close> before \<open>1a\<close>, whatever the
  collation.
\<close>

theorem processResults_sort_unparsed_id:
  "map res_id (result_categories (processResults lc
      \<lparr> raw_overallScore = Some (Number 80),
        raw_categories = Some
          [\<lparr> raw_id = Some ''2a'', raw_name = Some ''Second'', raw_score = Some (Number 80),
             raw_status = Some ''good'', raw_feedback = Some ''ok'' \<rparr>,
           \<lparr> raw_id = None, raw_name = Some ''No id'', raw_score = Some (Number 70),
             raw_status = Some ''fair'', raw_feedback = Some ''ok'' \<rparr>,
           \<lparr> raw_id = Some ''1a'', raw_name = Some ''First'', raw_score = Some (Number 90),
             raw_status = Some ''excellent'', raw_feedback = Some ''ok'' \<rparr>] \<rparr>
      \<lparr> phase = proposal, categories = [] \<rparr>))
     = [''2a'', ''unknown'', ''1a'']"
  by (simp add: processResults_def mapped_categories_def map_category_def str_or_def
      or_zero_def Math_min_def Math_max_def at_least_def
      fill_missing_def Array_sort_def sort_insert_def compare_by_id_def positive_def
      parseInt_def strip_sign_def strip_radix_def is_space_def is_radix_digit_def is_digit_def
      is_letter_def is_lower_def is_upper_def digit_value_def recalculate_def)

text \<open>The ids of the specification's example are sorted numerically, then by collation.\<close>

lemma processResults_sort_example:
  "map res_id (result_categories (processResults code_unit_compare
      \<lparr> raw_overallScore = Some (Number 80),
        raw_categories = Some
          [\<lparr> raw_id = Some ''10a'', raw_name = None, raw_score = Some (Number 80), raw_status = None, raw_feedback = None \<rparr>,
           \<lparr> raw_id = Some ''2b'', raw_name = None, raw_score = Some (Number 80), raw_status = None, raw_feedback = None \<rparr>,
           \<lparr> raw_id = Some ''1a'', raw_name = None, raw_score = Some (Number 80), raw_status = None, raw_feedback = None \<rparr>,
           \<lparr> raw_id = Some ''2a'', raw_name = None, raw_score = Some (Number 80), raw_status = None, raw_feedback = None \<rparr>] \<rparr>
      \<lparr> phase = proposal, categories = [] \<rparr>))
     = [''1a'', ''2a'', ''2b'', ''10a'']"
  by code_simp

text \<open>
  When the id of every category of the result starts with an integer, so that no
  comparison is \<open>NaN\<close>, and the collation is a consistent ordering, the result is sorted
  by that integer and, on equal integers, by the collation. The order by character code
  is such a collation.
\<close>

lemma sorted_wrt_sort_insert:
  fixes comparefn :: "'a \<Rightarrow> 'a \<Rightarrow> int option"
  defines "R \<equiv> \<lambda>a b. \<not> positive (comparefn a b)"
  assumes trans: "\<And>a b c. a \<in> S \<Longrightarrow> b \<in> S \<Longrightarrow> c \<in> S \<Longrightarrow> R a b \<Longrightarrow> R b c \<Longrightarrow> R a c"
    and asym: "\<And>a b. a \<in> S \<Longrightarrow> b \<in> S \<Longrightarrow> positive (comparefn a b) \<Longrightarrow> R b a"
    and sorted: "sorted_wrt R acc" and acc: "set acc \<subseteq> S" and x: "x \<in> S"
  shows "sorted_wrt R (sort_insert comparefn acc x)"
proof -
  define P where "P = (\<lambda>y. positive (comparefn y x))"
  define pre where "pre = rev (dropWhile P (rev acc))"
  define suf where "suf = rev (takeWhile P (rev acc))"
  have split: "pre @ suf = acc"
    unfolding pre_def suf_def
    by (simp only: rev_append [symmetric] takeWhile_dropWhile_id rev_rev_ident)
  have "sorted_wrt R (pre @ suf)"
    by (simp only: split sorted)
  then have s: "sorted_wrt R pre" "sorted_wrt R suf" "\<forall>a \<in> set pre. \<forall>b \<in> set suf. R a b"
    unfolding sorted_wrt_append by blast+
  have "set (pre @ suf) \<subseteq> S"
    by (simp only: split acc)
  then have sub: "set pre \<subseteq> S" "set suf \<subseteq> S"
    by simp_all
  have after: "R x b" if "b \<in> set suf" for b
  proof -
    from that have "b \<in> set (takeWhile P (rev acc))"
      by (simp add: suf_def)
    then have "P b"
      by (rule set_takeWhileD [THEN conjunct2])
    then have "positive (comparefn b x)"
      by (simp add: P_def)
    with that sub x show ?thesis
      by (blast intro: asym)
  qed
  have before: "R a x" if a: "a \<in> set pre" for a
  proof -
    from a have ne: "pre \<noteq> []"
      by auto
    then have ne': "dropWhile P (rev acc) \<noteq> []"
      by (simp add: pre_def)
    then have "\<not> P (hd (dropWhile P (rev acc)))"
      by (rule hd_dropWhile)
    moreover have "last pre = hd (dropWhile P (rev acc))"
      unfolding pre_def by (simp add: last_rev)
    ultimately have lx: "R (last pre) x"
      by (simp add: R_def P_def)
    from ne have pre: "butlast pre @ [last pre] = pre"
      by simp
    show ?thesis
    proof (cases "a = last pre")
      case True
      with lx show ?thesis by simp
    next
      case False
      from a have "a \<in> set (butlast pre @ [last pre])"
        by (simp only: pre)
      with False have "a \<in> set (butlast pre)"
        by simp
      moreover from s(1) have "sorted_wrt R (butlast pre @ [last pre])"
        by (simp only: pre)
      then have "\<forall>b \<in> set (butlast pre). R b (last pre)"
        unfolding sorted_wrt_append by simp
      ultimately have "R a (last pre)"
        by blast
      moreover from ne sub have "last pre \<in> S"
        using last_in_set by blast
      ultimately show ?thesis
        using lx a sub x by (blast intro: trans)
    qed
  qed
  have "sorted_wrt R (pre @ x # suf)"
    using s before after by (simp add: sorted_wrt_append)
  then show ?thesis
    by (simp add: sort_insert_def pre_def suf_def P_def)
qed


lemma set_sort_insert: "set (sort_insert comparefn acc x) = insert x (set acc)"
proof -
  have "set (sort_insert comparefn acc x) = set_mset (mset (sort_insert comparefn acc x))"
    by simp
  also have "\<dots> = insert x (set acc)"
    by (simp only: mset_sort_insert set_mset_add_mset_insert set_mset_mset)
  finally show ?thesis .
qed

lemma sorted_wrt_foldl_sort_insert:
  fixes comparefn :: "'a \<Rightarrow> 'a \<Rightarrow> int option"
  defines "R \<equiv> \<lambda>a b. \<not> positive (comparefn a b)"
  assumes trans: "\<And>a b c. a \<in> S \<Longrightarrow> b \<in> S \<Longrightarrow> c \<in> S \<Longrightarrow> R a b \<Longrightarrow> R b c \<Longrightarrow> R a c"
    and asym: "\<And>a b. a \<in> S \<Longrightarrow> b \<in> S \<Longrightarrow> positive (comparefn a b) \<Longrightarrow> R b a"
    and "sorted_wrt R acc" and "set acc \<subseteq> S" and "set ys \<subseteq> S"
  shows "sorted_wrt R (foldl (sort_insert comparefn) acc ys)"
  using assms(4-6)
proof (induction ys arbitrary: acc)
  case Nil
  then show ?case by simp
next
  case (Cons y ys)
  from Cons.prems have y: "y \<in> S" and ys: "set ys \<subseteq> S"
    by simp_all
  have "sorted_wrt R (sort_insert comparefn acc y)"
    unfolding R_def
  proof (rule sorted_wrt_sort_insert [where S = S])
    show "\<not> positive (comparefn a c)"
      if "a \<in> S" "b \<in> S" "c \<in> S" "\<not> positive (comparefn a b)" "\<not> positive (comparefn b c)"
      for a b c
      using trans [of a b c] that unfolding R_def by blast
    show "\<not> positive (comparefn b a)" if "a \<in> S" "b \<in> S" "positive (comparefn a b)" for a b
      using asym [of a b] that unfolding R_def by blast
    show "sorted_wrt (\<lambda>a b. \<not> positive (comparefn a b)) acc"
      using Cons.prems(1) by (simp add: R_def)
    show "set acc \<subseteq> S" by (rule Cons.prems(2))
    show "y \<in> S" by (rule y)
  qed
  moreover have "set (sort_insert comparefn acc y) \<subseteq> S"
    using Cons.prems(2) y by (simp add: set_sort_insert)
  ultimately have "sorted_wrt R (foldl (sort_insert comparefn) (sort_insert comparefn acc y) ys)"
    using ys by (rule Cons.IH)
  then show ?case by simp
qed

lemma sorted_wrt_Array_sort:
  fixes comparefn :: "'a \<Rightarrow> 'a \<Rightarrow> int option"
  assumes trans: "\<And>a b c. a \<in> set xs \<Longrightarrow> b \<in> set xs \<Longrightarrow> c \<in> set xs \<Longrightarrow>
      \<not> positive (comparefn a b) \<Longrightarrow> \<not> positive (comparefn b c) \<Longrightarrow> \<not> positive (comparefn a c)"
    and asym: "\<And>a b. a \<in> set xs \<Longrightarrow> b \<in> set xs \<Longrightarrow> positive (comparefn a b) \<Longrightarrow>
      \<not> positive (comparefn b a)"
  shows "sorted_wrt (\<lambda>a b. \<not> positive (comparefn a b)) (Array_sort comparefn xs)"
  unfolding Array_sort_def
proof (rule sorted_wrt_foldl_sort_insert [where S = "set xs"])
  show "\<not> positive (comparefn a c)"
    if "a \<in> set xs" "b \<in> set xs" "c \<in> set xs"
      "\<not> positive (comparefn a b)" "\<not> positive (comparefn b c)" for a b c
    using that by (rule trans)
  show "\<not> positive (comparefn b a)"
    if "a \<in> set xs" "b \<in> set xs" "positive (comparefn a b)" for a b
    using that by (rule asym)
  show "sorted_wrt (\<lambda>a b. \<not> positive (comparefn a b)) []"
    by simp
  show "set [] \<subseteq> set xs"
    by simp
  show "set xs \<subseteq> set xs"
    by simp
qed

lemma positive_compare_by_id:
  assumes "parseInt (res_id a) = Some m" and "parseInt (res_id b) = Some n"
  shows "positive (compare_by_id lc a b) \<longleftrightarrow> n < m \<or> (m = n \<and> 0 < lc (res_id a) (res_id b))"
  using assms by (auto simp: compare_by_id_def positive_def Let_def)

lemma processResults_sorted:
  assumes parsed: "\<forall>c \<in> set (result_categories (processResults lc rawResults crit)).
      parseInt (res_id c) \<noteq> None"
    and lc_asym: "\<And>a b. 0 < lc a b \<Longrightarrow> \<not> 0 < lc b a"
    and lc_trans: "\<And>a b c. lc a b \<le> 0 \<Longrightarrow> lc b c \<le> 0 \<Longrightarrow> lc a c \<le> 0"
  shows "sorted_wrt
      (\<lambda>a b. the (parseInt (res_id a)) < the (parseInt (res_id b))
         \<or> (the (parseInt (res_id a)) = the (parseInt (res_id b))
             \<and> lc (res_id a) (res_id b) \<le> 0))
      (result_categories (processResults lc rawResults crit))"
proof -
  define xs where "xs = fill_missing (mapped_categories rawResults) (categories crit)"
  define num where "num = (\<lambda>c :: category_result. the (parseInt (res_id c)))"
  have out: "result_categories (processResults lc rawResults crit)
      = Array_sort (compare_by_id lc) xs"
    by (simp add: result_categories_processResults xs_def)
  from parsed have p: "\<And>c. c \<in> set xs \<Longrightarrow> parseInt (res_id c) = Some (num c)"
    by (auto simp: out set_Array_sort num_def)
  have pos: "positive (compare_by_id lc a b)
      \<longleftrightarrow> num b < num a \<or> (num a = num b \<and> 0 < lc (res_id a) (res_id b))"
    if "a \<in> set xs" "b \<in> set xs" for a b
    using positive_compare_by_id [OF p [OF that(1)] p [OF that(2)]] .
  have "sorted_wrt (\<lambda>a b. \<not> positive (compare_by_id lc a b)) (Array_sort (compare_by_id lc) xs)"
  proof (rule sorted_wrt_Array_sort)
    fix a b c
    assume m: "a \<in> set xs" "b \<in> set xs" "c \<in> set xs"
      and ab: "\<not> positive (compare_by_id lc a b)" and bc: "\<not> positive (compare_by_id lc b c)"
    from ab m have 1: "num a < num b \<or> (num a = num b \<and> lc (res_id a) (res_id b) \<le> 0)"
      by (simp add: pos) linarith
    from bc m have 2: "num b < num c \<or> (num b = num c \<and> lc (res_id b) (res_id c) \<le> 0)"
      by (simp add: pos) linarith
    from 1 2 have "num a < num c \<or> (num a = num c \<and> lc (res_id a) (res_id c) \<le> 0)"
      using lc_trans [of "res_id a" "res_id b" "res_id c"] by linarith
    with m show "\<not> positive (compare_by_id lc a c)"
      by (simp add: pos) linarith
  next
    fix a b
    assume m: "a \<in> set xs" "b \<in> set xs" and ab: "positive (compare_by_id lc a b)"
    from ab m have "num b < num a \<or> (num a = num b \<and> 0 < lc (res_id a) (res_id b))"
      by (simp add: pos)
    then have "\<not> (num a < num b \<or> (num b = num a \<and> 0 < lc (res_id b) (res_id a)))"
      using lc_asym [of "res_id a" "res_id b"] by auto
    with m show "\<not> positive (compare_by_id lc b a)"
      by (simp add: pos)
  qed
  then have "sorted_wrt (\<lambda>a b. num a < num b \<or> (num a = num b \<and> lc (res_id a) (res_id b) \<le> 0))
      (Array_sort (compare_by_id lc) xs)"
  proof (rule sorted_wrt_mono_rel [rotated])
    fix a b
    assume "a \<in> set (Array_sort (compare_by_id lc) xs)" "b \<in> set (Array_sort (compare_by_id lc) xs)"
      and n: "\<not> positive (compare_by_id lc a b)"
    then have "a \<in> set xs" "b \<in> set xs"
      by (simp_all add: set_Array_sort)
    with n show "num a < num b \<or> (num a = num b \<and> lc (res_id a) (res_id b) \<le> 0)"
      by (simp add: pos) linarith
  qed
  then show ?thesis
    by (simp only: out num_def)
qed

lemma code_unit_compare_asym: "0 < code_unit_compare a b \<Longrightarrow> \<not> 0 < code_unit_compare b a"
proof (induction a b rule: code_unit_compare.induct)
  case (4 x xs y ys)
  consider "(of_char x :: nat) < of_char y" | "(of_char y :: nat) < of_char x"
    | "(of_char x :: nat) = of_char y"
    by linarith
  then show ?case
  proof cases
    case 1
    with 4(2) show ?thesis by simp
  next
    case 2
    then show ?thesis by simp
  next
    case 3
    with 4 show ?thesis by simp
  qed
qed simp_all

lemma code_unit_compare_trans:
  "code_unit_compare a b \<le> 0 \<Longrightarrow> code_unit_compare b c \<le> 0 \<Longrightarrow> code_unit_compare a c \<le> 0"
proof (induction a b arbitrary: c rule: code_unit_compare.induct)
  case 1
  then show ?case by simp
next
  case (2 y ys)
  then show ?case by (cases c) simp_all
next
  case (3 x xs)
  then show ?case by simp
next
  case (4 x xs y ys)
  show ?case
  proof (cases c)
    case Nil
    with 4(3) show ?thesis by simp
  next
    case (Cons z zs)
    from 4(2) have xy: "(of_char x :: nat) \<le> of_char y"
      by (simp split: if_splits)
    from 4(3) Cons have yz: "(of_char y :: nat) \<le> of_char z"
      by (simp split: if_splits)
    show ?thesis
    proof (cases "(of_char x :: nat) < of_char z")
      case True
      with Cons show ?thesis by simp
    next
      case False
      with xy yz have eq: "(of_char x :: nat) = of_char y" "(of_char y :: nat) = of_char z"
        by linarith+
      with 4(2) have "code_unit_compare xs ys \<le> 0"
        by simp
      moreover from 4(3) Cons eq have "code_unit_compare ys zs \<le> 0"
        by simp
      ultimately have "code_unit_compare xs zs \<le> 0"
        using 4(1) eq by simp
      with Cons eq show ?thesis by simp
    qed
  qed
qed

lemma processResults_sorted_code_units:
  assumes "\<forall>c \<in> set (result_categories (processResults code_unit_compare rawResults crit)).
      parseInt (res_id c) \<noteq> None"
  shows "sorted_wrt
      (\<lambda>a b. the (parseInt (res_id a)) < the (parseInt (res_id b))
         \<or> (the (parseInt (res_id a)) = the (parseInt (res_id b))
             \<and> code_unit_compare (res_id a) (res_id b) \<le> 0))
      (result_categories (processResults code_unit_compare rawResults crit))"
  using assms code_unit_compare_asym code_unit_compare_trans
  by (rule processResults_sorted)


section \<open>Properties of the retry loop\<close>










section \<open>Properties of the event-stream parser\<close>

text \<open>
  Within the lines of one read, a \<open>[DONE]\<close> payload ends the processing, and a payload
  that does not parse is skipped. The value returned is the accumulated content, or the
  accumulated reasoning when the content is empty.
\<close>

lemma process_lines_done:
  assumes "trim line = ''data: [DONE]''"
  shows "process_lines parse onChunk (line # rest) acc = acc"
  using assms by (cases acc) (simp add: startsWith_def)

lemma process_lines_malformed:
  assumes "trim line = ''data: '' @ data" and "data \<noteq> ''[DONE]''" and "parse data = None"
  shows "process_lines parse onChunk (line # rest) acc = process_lines parse onChunk rest acc"
  using assms by (cases acc) (simp add: startsWith_def)

lemma parseSSEStream_returns:
  assumes "read_loop parse onChunk stream [] ([], []) = Inr (accumulatedContent, accumulatedReasoning)"
  shows "parseSSEStream parse stream onChunk
     = Inr (if accumulatedContent = [] then accumulatedReasoning else accumulatedContent)"
  using assms by (simp add: parseSSEStream_def)



lemma process_lines_content:
  assumes "trim line = ''data: '' @ data" and "data \<noteq> ''[DONE]''"
    and "parse data = Some \<lparr> chunk_delta = Some \<lparr> reasoning = None, content = Some text \<rparr>,
                              finish_reason = None \<rparr>"
    and "text \<noteq> []"
  shows "process_lines parse None (line # rest) (accumulatedContent, accumulatedReasoning)
     = process_lines parse None rest (accumulatedContent @ text, accumulatedReasoning)"
  using assms by (simp add: startsWith_def truthy_def returns_def)

text \<open>
  Claim C4 at an input where consumption does not end at \<open>[DONE]\<close>. The \<open>break\<close>
  taken at a \<open>[DONE]\<close> payload leaves the loop over the lines of the current read; the
  loop over the reads goes on. When a first read delivers the \<open>[DONE]\<close> line and a second
  read delivers a data line whose payload decodes to the content \<open>X\<close>, the function
  returns \<open>X\<close>.
\<close>

theorem parseSSEStream_reads_past_done:
  assumes \<open>parse ''{"choices":[{"delta":{"content":"X"}}]}''
     = Some \<lparr> chunk_delta = Some \<lparr> reasoning = None, content = Some ''X'' \<rparr>,
              finish_reason = None \<rparr>\<close>
  shows \<open>parseSSEStream parse
      [Value ''data: [DONE]\<newline>'',
       Value ''data: {"choices":[{"delta":{"content":"X"}}]}\<newline>''] None = Inr ''X''\<close>
proof -
  have l1: \<open>split_str CHR 0x0A ([] @ ''data: [DONE]\<newline>'') = [''data: [DONE]'', []]\<close>
    by code_simp
  have l2: \<open>split_str CHR 0x0A ([] @ ''data: {"choices":[{"delta":{"content":"X"}}]}\<newline>'')
      = [''data: {"choices":[{"delta":{"content":"X"}}]}'', []]\<close>
    by code_simp
  have t1: \<open>trim ''data: [DONE]'' = ''data: [DONE]''\<close>
    by code_simp
  have t2: \<open>trim ''data: {"choices":[{"delta":{"content":"X"}}]}''
      = ''data: '' @ ''{"choices":[{"delta":{"content":"X"}}]}''\<close>
    by code_simp
  have p1: \<open>process_lines parse None [''data: [DONE]''] ([], []) = ([], [])\<close>
    using t1 by (rule process_lines_done)
  have p2: \<open>process_lines parse None [''data: {"choices":[{"delta":{"content":"X"}}]}''] ([], [])
      = process_lines parse None [] ([] @ ''X'', [])\<close>
    using t2 _ assms by (rule process_lines_content) simp_all
  show ?thesis
    unfolding parseSSEStream_def
    by (simp add: l1 l2 p1 p2 Let_def del: append.simps process_lines.simps)
      (simp add: process_lines.simps(1))
qed

theorem parseSSEStream_reads_past_done_witness:
  \<open>parseSSEStream
      (\<lambda>data. if data = ''{"choices":[{"delta":{"content":"X"}}]}''
         then Some \<lparr> chunk_delta = Some \<lparr> reasoning = None, content = Some ''X'' \<rparr>,
                     finish_reason = None \<rparr>
         else None)
      [Value ''data: [DONE]\<newline>'',
       Value ''data: {"choices":[{"delta":{"content":"X"}}]}\<newline>''] None = Inr ''X''\<close>
  by (rule parseSSEStream_reads_past_done) simp

section \<open>Properties of the criteria extractor\<close>

text \<open>
  The ids of the parsed categories are the ids of the accepted rows, in the order of the
  rows: a continuation row changes a description only.
\<close>

lemma ids_parse_row:
  "map cat_id (fst (parse_row columnIndex state line))
     = map cat_id (fst state) @ (case row_id columnIndex line of None \<Rightarrow> [] | Some i \<Rightarrow> [i])"
proof -
  have upd: "map cat_id (butlast cs) @ [cat_id (last cs)] = map cat_id cs"
    if "cs \<noteq> []" for cs :: "category list"
    using that by (induction cs) auto
  show ?thesis
    by (cases state)
       (auto simp: parse_row_def row_id_def Let_def upd split: option.splits)
qed

lemma ids_foldl_parse_row:
  "map cat_id (fst (foldl (parse_row columnIndex) state lines))
     = map cat_id (fst state) @ List.map_filter (row_id columnIndex) lines"
proof (induction lines arbitrary: state)
  case Nil
  show ?case by (simp add: List.map_filter_simps)
next
  case (Cons line lines)
  show ?case
    by (simp add: Cons.IH ids_parse_row List.map_filter_simps split: option.splits)
qed

lemma ids_parseTableRows:
  "map cat_id (categories (parseTableRows tableText p))
     = List.map_filter (row_id (phaseColumnMap p)) (split_str CHR 0x0A tableText)"
  by (simp add: parseTableRows_def Let_def ids_foldl_parse_row)

lemma ids_getDefaultCriteria:
  "map cat_id (categories (getDefaultCriteria p))
     = [''1a'', ''1b'', ''2a'', ''2b'', ''3a'', ''3b'', ''3c'', ''4a'', ''4b'', ''4c'',
        ''5a'', ''5b'', ''5c'', ''5d'', ''6a'', ''6b'']"
  by (simp add: getDefaultCriteria_def CATEGORY_DEFINITIONS_def)

text \<open>
  Claim C7. For every text and phase, when the text has no table marker, or the parsing
  of the table portion yields no category, \<open>extractCriteria\<close> returns the default rubric
  of the phase. That rubric has exactly the 16 fixed ids. \<open>extractCriteria\<close> never
  returns a rubric with an empty list of categories.
\<close>

theorem extractCriteria_default:
  "(indexOf text ''Table 2'' 0 = None
      \<or> (\<exists>table2Start. indexOf text ''Table 2'' 0 = Some table2Start
            \<and> categories (parseTableRows (table_text text table2Start) p) = []) \<longrightarrow>
      extractCriteria text p = getDefaultCriteria p)
   \<and> map cat_id (categories (getDefaultCriteria p))
        = [''1a'', ''1b'', ''2a'', ''2b'', ''3a'', ''3b'', ''3c'', ''4a'', ''4b'', ''4c'',
           ''5a'', ''5b'', ''5c'', ''5d'', ''6a'', ''6b'']
   \<and> length (categories (getDefaultCriteria p)) = 16
   \<and> categories (extractCriteria text p) \<noteq> []"
proof (intro conjI impI)
  assume "indexOf text ''Table 2'' 0 = None
      \<or> (\<exists>table2Start. indexOf text ''Table 2'' 0 = Some table2Start
            \<and> categories (parseTableRows (table_text text table2Start) p) = [])"
  then show "extractCriteria text p = getDefaultCriteria p"
    by (auto simp: extractCriteria_def Let_def)
next
  show "map cat_id (categories (getDefaultCriteria p))
        = [''1a'', ''1b'', ''2a'', ''2b'', ''3a'', ''3b'', ''3c'', ''4a'', ''4b'', ''4c'',
           ''5a'', ''5b'', ''5c'', ''5d'', ''6a'', ''6b'']"
    by (rule ids_getDefaultCriteria)
next
  show len: "length (categories (getDefaultCriteria p)) = 16"
    by (simp add: getDefaultCriteria_def CATEGORY_DEFINITIONS_def)
  then have "categories (getDefaultCriteria p) \<noteq> []"
    by auto
  then show "categories (extractCriteria text p) \<noteq> []"
    by (auto simp: extractCriteria_def Let_def split: option.splits)
qed

theorem extractCriteria_default_witness:
  "extractCriteria ''Evaluation criteria without a table'' mid = getDefaultCriteria mid
   \<and> extractCriteria ''Table 2 lists no rows'' end_phase = getDefaultCriteria end_phase"
proof
  have "indexOf ''Evaluation criteria without a table'' ''Table 2'' 0 = None"
    by code_simp
  then show "extractCriteria ''Evaluation criteria without a table'' mid = getDefaultCriteria mid"
    using extractCriteria_default [of "''Evaluation criteria without a table''" mid] by simp
next
  have "indexOf ''Table 2 lists no rows'' ''Table 2'' 0 = Some 0
      \<and> categories (parseTableRows (table_text ''Table 2 lists no rows'' 0) end_phase) = []"
    by code_simp
  then show "extractCriteria ''Table 2 lists no rows'' end_phase = getDefaultCriteria end_phase"
    using extractCriteria_default [of "''Table 2 lists no rows''" end_phase] by simp
qed

text \<open>
  Claim C8 as stated fails: two table rows with the same id give two categories with
  that id.
\<close>

theorem extractCriteria_repeated_id_counterexample:
  "map cat_id (categories (extractCriteria
      ''Table 2\<newline>| 1a What data will be collected | x | y |\<newline>| 1a What data will be reused | x | y |''
      proposal)) = [''1a'', ''1a'']"
  by code_simp

text \<open>
  Claim C8, amended. The default rubric has pairwise-distinct ids, so the rubric returned
  for a text without table marker has. For a text with the marker, the ids of the
  returned rubric are pairwise distinct exactly when the ids of the rows that the parser
  accepts as categories are: each accepted row adds a category, and no id is compared
  with the ids added before.
\<close>

theorem extractCriteria_distinct_ids:
  "distinct (map cat_id (categories (getDefaultCriteria p)))
   \<and> (indexOf text ''Table 2'' 0 = None \<longrightarrow>
        distinct (map cat_id (categories (extractCriteria text p))))
   \<and> (\<forall>table2Start. indexOf text ''Table 2'' 0 = Some table2Start \<longrightarrow>
        distinct (map cat_id (categories (extractCriteria text p)))
          = distinct (List.map_filter (row_id (phaseColumnMap p))
                        (split_str CHR 0x0A (table_text text table2Start))))"
proof (intro conjI impI allI)
  show d: "distinct (map cat_id (categories (getDefaultCriteria p)))"
    by (simp add: ids_getDefaultCriteria)
  show "distinct (map cat_id (categories (extractCriteria text p)))"
    if "indexOf text ''Table 2'' 0 = None"
    using that d by (simp add: extractCriteria_def)
  show "distinct (map cat_id (categories (extractCriteria text p)))
          = distinct (List.map_filter (row_id (phaseColumnMap p))
                        (split_str CHR 0x0A (table_text text table2Start)))"
    if "indexOf text ''Table 2'' 0 = Some table2Start" for table2Start
  proof (cases "categories (parseTableRows (table_text text table2Start) p) = []")
    case True
    then have "List.map_filter (row_id (phaseColumnMap p))
        (split_str CHR 0x0A (table_text text table2Start)) = []"
      using ids_parseTableRows [of "table_text text table2Start" p] by simp
    with True that d show ?thesis
      by (simp add: extractCriteria_def Let_def)
  next
    case False
    with that show ?thesis
      by (simp add: extractCriteria_def Let_def ids_parseTableRows)
  qed
qed

theorem extractCriteria_distinct_ids_witness:
  "distinct (map cat_id (categories (extractCriteria ''Evaluation criteria without a table'' mid)))
   \<and> distinct (map cat_id (categories (extractCriteria
        ''Table 2\<newline>| 1a What data will be collected | x | y |\<newline>| 1b Which formats will be used | x | y |''
        proposal)))"
proof
  have "indexOf ''Evaluation criteria without a table'' ''Table 2'' 0 = None"
    by code_simp
  then show "distinct (map cat_id (categories
      (extractCriteria ''Evaluation criteria without a table'' mid)))"
    using extractCriteria_distinct_ids [of mid "''Evaluation criteria without a table''"] by simp
next
  let ?text = "''Table 2\<newline>| 1a What data will be collected | x | y |\<newline>| 1b Which formats will be used | x | y |''"
  have i: "indexOf ?text ''Table 2'' 0 = Some 0"
    by code_simp
  have "List.map_filter (row_id (phaseColumnMap proposal)) (split_str CHR 0x0A (table_text ?text 0))
      = [''1a'', ''1b'']"
    by code_simp
  then show "distinct (map cat_id (categories (extractCriteria ?text proposal)))"
    using extractCriteria_distinct_ids [of proposal ?text] i by simp
qed
section \<open>Properties of the orchestrator\<close>





subsection \<open>No stage of the repository throws \<open>null\<close> or \<open>undefined\<close>\<close>


lemma throw_not_Nullish: "snd (throw msg) \<noteq> Inl Nullish"
  by (simp add: throw_def)














subsection \<open>Events of decoding a file\<close>










subsection \<open>The stages in order\<close>








text \<open>
  The callback handed to the model client passes every report on as the same message, and
  a value thrown by the progress callback is thrown into the model client.
\<close>

lemma wrapped_callback:
  "updateProgress (Some cb) (''AI: '' @ ToString report)
     = ([Progress ''AI: [object Object]''],
        case cb ''AI: [object Object]'' of None \<Rightarrow> Inr () | Some error \<Rightarrow> Inl error)"
  by (simp add: updateProgress_def ToString_def split: option.splits)




end
